theory Spec2Isabelle
  imports Main "HOL-Library.AList"
begin

section \<open>The Solr admin scripts: \<^verbatim>\<open>app.py\<close> and \<^verbatim>\<open>optimized/app.py\<close>\<close>

text \<open>
  Both scripts are sequences of calls into three external collaborators: the
  \<^verbatim>\<open>requests\<close> HTTP client, the \<^verbatim>\<open>pysolr\<close> client and the local file system
  (\<^verbatim>\<open>open\<close> with \<^verbatim>\<open>csv.DictReader\<close>). The embedding keeps the scripts' own control
  flow (which call is made when, which exception class each \<^verbatim>\<open>except\<close> clause
  catches, which value each branch returns) and takes the collaborators as a parameter
  \<open>env\<close>: for every call it says whether the call returns (and what) or raises (and
  what). The server's answers may depend on all requests sent to it so far.
  Every call made to a collaborator is appended to a trace of events.
  Console and log output is not part of the model.
\<close>

subsection \<open>Python values and exceptions\<close>

text \<open>
  The \<^verbatim>\<open>response\<close> attribute of a \<^verbatim>\<open>requests\<close> exception: the library sets it on
  every \<^verbatim>\<open>RequestException\<close>, to the response for an \<^verbatim>\<open>HTTPError\<close> raised by
  \<^verbatim>\<open>raise_for_status\<close> and to \<^verbatim>\<open>None\<close> for an exception built without a response
  (\<^verbatim>\<open>ConnectionError\<close>, \<^verbatim>\<open>Timeout\<close>). \<open>NoAttr\<close> stands for an exception object
  without the attribute. Of a response the handlers read the status code and the text.
\<close>

datatype resp_attr = NoAttr | AttrNone | AttrResp nat string

text \<open>
  The exception classes the scripts can meet, all below \<^verbatim>\<open>Exception\<close>, each with its
  message. \<open>OtherException\<close> is any other class below \<^verbatim>\<open>Exception\<close>
  (\<^verbatim>\<open>PermissionError\<close>, \<^verbatim>\<open>ValueError\<close>, ...). Exceptions outside \<^verbatim>\<open>Exception\<close>
  (\<^verbatim>\<open>KeyboardInterrupt\<close>, \<^verbatim>\<open>SystemExit\<close>) are not modelled. The messages of the
  interpreter's own \<^verbatim>\<open>TypeError\<close> and \<^verbatim>\<open>AttributeError\<close> are shortened (no type
  names, no quotation marks); no property below depends on their wording.
\<close>

datatype exn =
    RequestException string resp_attr
  | FileNotFoundError string
  | KeyError string
  | TypeError string
  | AttributeError string
  | SolrError string
  | OtherException string

text \<open>\<^verbatim>\<open>str(e)\<close>; for a \<^verbatim>\<open>KeyError\<close> it is the quoted key.\<close>

fun str_exn :: "exn \<Rightarrow> string" where
  "str_exn (RequestException m a) = m"
| "str_exn (FileNotFoundError m) = m"
| "str_exn (KeyError k) = [CHR 0x27] @ k @ [CHR 0x27]"
| "str_exn (TypeError m) = m"
| "str_exn (AttributeError m) = m"
| "str_exn (SolrError m) = m"
| "str_exn (OtherException m) = m"

text \<open>The three \<^verbatim>\<open>except\<close> clauses of the scripts.\<close>

fun is_RequestException :: "exn \<Rightarrow> bool" where
  "is_RequestException (RequestException m a) = True"
| "is_RequestException e = False"

fun is_FileNotFoundError :: "exn \<Rightarrow> bool" where
  "is_FileNotFoundError (FileNotFoundError m) = True"
| "is_FileNotFoundError e = False"

fun is_Exception :: "exn \<Rightarrow> bool" where
  "is_Exception e = True"

datatype 'a res = Ret 'a | Raise exn

text \<open>Decoded JSON, as \<^verbatim>\<open>response.json()\<close> and \<^verbatim>\<open>pysolr\<close> hand it over.\<close>

datatype json =
    JNull
  | JBool bool
  | JInt int
  | JStr string
  | JList "json list"
  | JDict "(string \<times> json) list"

text \<open>What an operation returns to its caller.\<close>

datatype pyval =
    PBool bool
  | PStr string
  | PInt int
  | PList "json list"
  | PDict "(json \<times> json) list"

fun is_substring :: "string \<Rightarrow> string \<Rightarrow> bool" where
  "is_substring s [] = (s = [])"
| "is_substring s (c # cs) = (take (length s) (c # cs) = s \<or> is_substring s cs)"

text \<open>\<^verbatim>\<open>obj[key]\<close> for a string key.\<close>

fun py_getitem :: "json \<Rightarrow> string \<Rightarrow> json res" where
  "py_getitem (JDict kvs) key =
     (case map_of kvs key of Some v \<Rightarrow> Ret v | None \<Rightarrow> Raise (KeyError key))"
| "py_getitem (JList xs) key =
     Raise (TypeError ''list indices must be integers or slices, not str'')"
| "py_getitem (JStr s) key = Raise (TypeError ''string indices must be integers'')"
| "py_getitem j key = Raise (TypeError ''object is not subscriptable'')"

text \<open>\<^verbatim>\<open>key in obj\<close> for a string key.\<close>

fun py_contains :: "string \<Rightarrow> json \<Rightarrow> bool res" where
  "py_contains key (JDict kvs) = Ret (key \<in> set (map fst kvs))"
| "py_contains key (JList xs) = Ret (JStr key \<in> set xs)"
| "py_contains key (JStr s) = Ret (is_substring key s)"
| "py_contains key j = Raise (TypeError ''argument is not iterable'')"

text \<open>\<^verbatim>\<open>list(obj.keys())\<close>.\<close>

fun py_keys :: "json \<Rightarrow> string list res" where
  "py_keys (JDict kvs) = Ret (map fst kvs)"
| "py_keys j = Raise (AttributeError ''object has no attribute keys'')"

subsection \<open>The collaborators\<close>

record http_request =
  req_url :: string
  req_params :: "(string \<times> string) list"

text \<open>
  A response of \<^verbatim>\<open>requests\<close>: \<open>resp_json\<close> is what \<^verbatim>\<open>response.json()\<close> does
  (the decoded body, or the exception of a body that is not JSON), \<open>resp_error_msg\<close> the
  message \<^verbatim>\<open>raise_for_status\<close> gives its \<^verbatim>\<open>HTTPError\<close>.
\<close>

record http_response =
  resp_status_code :: nat
  resp_text :: string
  resp_json :: "json res"
  resp_error_msg :: string

text \<open>A value of a \<^verbatim>\<open>csv.DictReader\<close> row.\<close>

datatype csvval = VStr string | VNone | VRest "string list"

type_synonym doc = "(string option \<times> csvval) list"

text \<open>The \<^verbatim>\<open>pysolr.Results\<close> of a search.\<close>

record results =
  res_docs :: "json list"
  res_hits :: int
  res_facets :: json

datatype event =
    HttpGet http_request
  | SolrAdd string "doc list"
  | SolrSearch string string "(string \<times> string) list"
  | SolrDelete string string
  | FileOpen string
  | FileClose string

type_synonym trace = "event list"

text \<open>What the server has seen: the requests, not the client's file handling.\<close>

fun is_request :: "event \<Rightarrow> bool" where
  "is_request (FileOpen p) = False"
| "is_request (FileClose p) = False"
| "is_request ev = True"

definition requests_of :: "trace \<Rightarrow> trace" where
  "requests_of t = filter is_request t"

text \<open>
  The environment. \<open>http_get\<close>: \<^verbatim>\<open>requests.get\<close>; \<open>open_file\<close>: \<^verbatim>\<open>open(path, 'r')\<close>
  followed by \<^verbatim>\<open>csv.reader\<close>, the rows of the file as lists of fields (reading an
  opened file is taken not to fail); \<open>solr_add\<close>, \<open>solr_search\<close>, \<open>solr_delete\<close>: the
  methods of a \<^verbatim>\<open>pysolr.Solr\<close> object for the URL given; \<open>environ\<close>:
  \<^verbatim>\<open>os.environ\<close> after \<^verbatim>\<open>load_dotenv()\<close>; \<open>str_upper\<close>: the interpreter's
  \<^verbatim>\<open>str.upper\<close> on text with characters outside ASCII (its Unicode case mapping is
  not modelled, so it is taken as given). The first argument of a server call is the
  list of requests made before it.
\<close>

record env =
  http_get :: "trace \<Rightarrow> http_request \<Rightarrow> http_response res"
  open_file :: "string \<Rightarrow> string list list res"
  solr_add :: "trace \<Rightarrow> string \<Rightarrow> doc list \<Rightarrow> unit res"
  solr_search :: "trace \<Rightarrow> string \<Rightarrow> string \<Rightarrow> (string \<times> string) list \<Rightarrow> results res"
  solr_delete :: "trace \<Rightarrow> string \<Rightarrow> string \<Rightarrow> unit res"
  environ :: "string \<Rightarrow> string option"
  str_upper :: "string \<Rightarrow> string"

subsection \<open>Computations: a result or an exception, and the trace\<close>

type_synonym 'a comp = "trace \<Rightarrow> 'a res \<times> trace"

definition ret :: "'a \<Rightarrow> 'a comp" where
  "ret x = (\<lambda>t. (Ret x, t))"

definition lift :: "'a res \<Rightarrow> 'a comp" where
  "lift r = (\<lambda>t. (r, t))"

definition bind_c :: "'a comp \<Rightarrow> ('a \<Rightarrow> 'b comp) \<Rightarrow> 'b comp" where
  "bind_c m f = (\<lambda>t. case m t of (Ret x, t1) \<Rightarrow> f x t1 | (Raise e, t1) \<Rightarrow> (Raise e, t1))"

text \<open>\<^verbatim>\<open>try: m except C as e: h\<close>, the class \<open>C\<close> as a predicate.\<close>

definition try_except :: "'a comp \<Rightarrow> (exn \<Rightarrow> bool) \<Rightarrow> (exn \<Rightarrow> 'a comp) \<Rightarrow> 'a comp" where
  "try_except m catches h =
     (\<lambda>t. case m t of
        (Ret x, t1) \<Rightarrow> (Ret x, t1)
      | (Raise e, t1) \<Rightarrow> if catches e then h e t1 else (Raise e, t1))"

definition requests_get :: "env \<Rightarrow> http_request \<Rightarrow> http_response comp" where
  "requests_get env rq = (\<lambda>t. (http_get env (requests_of t) rq, t @ [HttpGet rq]))"

definition raise_for_status :: "http_response \<Rightarrow> unit res" where
  "raise_for_status r =
     (if 400 \<le> resp_status_code r \<and> resp_status_code r < 600
      then Raise (RequestException (resp_error_msg r)
                    (AttrResp (resp_status_code r) (resp_text r)))
      else Ret ())"

definition Solr_add :: "env \<Rightarrow> string \<Rightarrow> doc list \<Rightarrow> unit comp" where
  "Solr_add env u docs = (\<lambda>t. (solr_add env (requests_of t) u docs, t @ [SolrAdd u docs]))"

definition Solr_search :: "env \<Rightarrow> string \<Rightarrow> string \<Rightarrow> (string \<times> string) list \<Rightarrow> results comp" where
  "Solr_search env u q kw =
     (\<lambda>t. (solr_search env (requests_of t) u q kw, t @ [SolrSearch u q kw]))"

definition Solr_delete :: "env \<Rightarrow> string \<Rightarrow> string \<Rightarrow> unit comp" where
  "Solr_delete env u i = (\<lambda>t. (solr_delete env (requests_of t) u i, t @ [SolrDelete u i]))"

text \<open>
  \<^verbatim>\<open>with open(path, 'r') as file: body\<close>: the file is closed when the block is left,
  by its end or by an exception.
\<close>

definition with_open :: "env \<Rightarrow> string \<Rightarrow> (string list list \<Rightarrow> 'a comp) \<Rightarrow> 'a comp" where
  "with_open env path body =
     (\<lambda>t. case open_file env path of
        Raise e \<Rightarrow> (Raise e, t)
      | Ret rows \<Rightarrow>
          (case body rows (t @ [FileOpen path]) of (r, t1) \<Rightarrow> (r, t1 @ [FileClose path])))"

text \<open>
  The body of the handlers of the HTTP operations:
  \<^verbatim>\<open>if hasattr(e, 'response'): ... e.response.status_code ... e.response.text\<close>.
  Reading \<^verbatim>\<open>status_code\<close> of \<^verbatim>\<open>None\<close> raises.
\<close>

fun report_response :: "exn \<Rightarrow> unit res" where
  "report_response (RequestException m NoAttr) = Ret ()"
| "report_response (RequestException m AttrNone) =
     Raise (AttributeError ''NoneType object has no attribute status_code'')"
| "report_response (RequestException m (AttrResp c b)) = Ret ()"
| "report_response e = Ret ()"

subsection \<open>\<^verbatim>\<open>csv.DictReader\<close> and the documents\<close>

text \<open>
  One row as a dictionary (in insertion order): the fields under the header's names, a
  later duplicate name overwriting; surplus fields as a list under the key \<^verbatim>\<open>None\<close>;
  missing fields as \<^verbatim>\<open>None\<close>.
\<close>

definition row_dict :: "string list \<Rightarrow> string list \<Rightarrow> doc" where
  "row_dict fieldnames row =
     (let d = fold (\<lambda>(k, v) d. AList.update (Some k) (VStr v) d) (zip fieldnames row) []
      in if length fieldnames < length row
         then AList.update None (VRest (drop (length fieldnames) row)) d
         else if length fieldnames > length row
         then fold (\<lambda>k d. AList.update (Some k) VNone d) (drop (length row) fieldnames) d
         else d)"

text \<open>The first row is the header; empty rows are skipped.\<close>

fun DictReader :: "string list list \<Rightarrow> doc list" where
  "DictReader [] = []"
| "DictReader (fieldnames # rows) = map (row_dict fieldnames) (filter (\<lambda>r. r \<noteq> []) rows)"

text \<open>\<^verbatim>\<open>{k: v for k, v in row.items() if k != exclude_column}\<close>\<close>

definition drop_column :: "string \<Rightarrow> doc \<Rightarrow> doc" where
  "drop_column exclude_column row = filter (\<lambda>(k, v). k \<noteq> Some exclude_column) row"

definition documents_of :: "string \<Rightarrow> string list list \<Rightarrow> doc list" where
  "documents_of exclude_column rows = map (drop_column exclude_column) (DictReader rows)"

subsection \<open>Facet counts: \<^verbatim>\<open>dict(zip(facet_counts[::2], facet_counts[1::2]))\<close>\<close>

fun every_other :: "'a list \<Rightarrow> 'a list" where
  "every_other [] = []"
| "every_other [x] = [x]"
| "every_other (x # y # xs) = x # every_other xs"

text \<open>
  \<^verbatim>\<open>obj[start::2]\<close>, then iterated by \<^verbatim>\<open>zip\<close>: the slice of a string is iterated
  character by character. A dictionary takes no slice as key (a \<^verbatim>\<open>TypeError\<close> up to
  Python 3.11, a \<^verbatim>\<open>KeyError\<close> since).
\<close>

fun py_slice2 :: "nat \<Rightarrow> json \<Rightarrow> json list res" where
  "py_slice2 start (JList xs) = Ret (every_other (drop start xs))"
| "py_slice2 start (JStr s) = Ret (map (\<lambda>c. JStr [c]) (every_other (drop start s)))"
| "py_slice2 start (JDict kvs) = Raise (TypeError ''unhashable type: slice'')"
| "py_slice2 start j = Raise (TypeError ''object is not subscriptable'')"

fun hashable :: "json \<Rightarrow> bool" where
  "hashable (JList xs) = False"
| "hashable (JDict kvs) = False"
| "hashable j = True"

text \<open>Python compares \<^verbatim>\<open>True\<close> and \<^verbatim>\<open>1\<close> (and \<^verbatim>\<open>False\<close> and \<^verbatim>\<open>0\<close>) equal as keys.\<close>

fun key_norm :: "json \<Rightarrow> json" where
  "key_norm (JBool b) = JInt (if b then 1 else 0)"
| "key_norm j = j"

fun dict_set :: "(json \<times> json) list \<Rightarrow> json \<Rightarrow> json \<Rightarrow> (json \<times> json) list" where
  "dict_set [] k v = [(k, v)]"
| "dict_set ((k', v') # d) k v =
     (if key_norm k' = key_norm k then (k', v) # d else (k', v') # dict_set d k v)"

fun dict_of_pairs :: "(json \<times> json) list \<Rightarrow> (json \<times> json) list \<Rightarrow> (json \<times> json) list res" where
  "dict_of_pairs d [] = Ret d"
| "dict_of_pairs d ((k, v) # ps) =
     (if hashable k then dict_of_pairs (dict_set d k v) ps
      else Raise (TypeError ''unhashable type''))"

text \<open>The part of \<^verbatim>\<open>getDepFacet\<close> and \<^verbatim>\<open>get_department_facet\<close> after the search.\<close>

definition facet_dict :: "results \<Rightarrow> (json \<times> json) list res" where
  "facet_dict rs =
     (case py_getitem (res_facets rs) ''facet_fields'' of
        Raise e \<Rightarrow> Raise e
      | Ret ff \<Rightarrow>
          (case py_getitem ff ''Department'' of
             Raise e \<Rightarrow> Raise e
           | Ret facet_counts \<Rightarrow>
               (case py_slice2 0 facet_counts of
                  Raise e \<Rightarrow> Raise e
                | Ret ks \<Rightarrow>
                    (case py_slice2 1 facet_counts of
                       Raise e \<Rightarrow> Raise e
                     | Ret vs \<Rightarrow> dict_of_pairs [] (zip ks vs)))))"

section \<open>The baseline script \<^verbatim>\<open>app.py\<close>\<close>

definition SOLR_URL :: string where
  "SOLR_URL = ''http://localhost:8983/solr''"

definition check_solr_connection :: "env \<Rightarrow> bool comp" where
  "check_solr_connection env =
     try_except
       (bind_c (requests_get env
                  \<lparr>req_url = SOLR_URL @ ''/admin/cores?action=STATUS&wt=json'', req_params = []\<rparr>)
          (\<lambda>response. bind_c (lift (raise_for_status response))
          (\<lambda>u. ret True)))
       is_RequestException
       (\<lambda>e. bind_c (lift (report_response e)) (\<lambda>u. ret False))"

definition check_core_exists :: "env \<Rightarrow> string \<Rightarrow> bool comp" where
  "check_core_exists env core_name =
     try_except
       (bind_c (requests_get env
                  \<lparr>req_url = SOLR_URL @ ''/admin/cores?action=STATUS&core='' @ core_name @ ''&wt=json'',
                   req_params = []\<rparr>)
          (\<lambda>response. bind_c (lift (raise_for_status response))
          (\<lambda>u. bind_c (lift (resp_json response))
          (\<lambda>j. bind_c (lift (py_getitem j ''status''))
          (\<lambda>cores. bind_c (lift (py_contains core_name cores))
          (\<lambda>exists. bind_c (if exists then ret [] else lift (py_keys cores))
          (\<lambda>available. ret exists)))))))
       is_RequestException
       (\<lambda>e. bind_c (lift (report_response e)) (\<lambda>u. ret False))"

definition createCore :: "env \<Rightarrow> string \<Rightarrow> string comp" where
  "createCore env core_name =
     bind_c (check_core_exists env core_name)
       (\<lambda>exists.
          if exists then ret (''Core '' @ core_name @ '' already exists.'')
          else
            try_except
              (bind_c (requests_get env
                         \<lparr>req_url = SOLR_URL @ ''/admin/cores'',
                          req_params = [(''action'', ''CREATE''), (''name'', core_name),
                                        (''instanceDir'', core_name), (''configSet'', ''_default'')]\<rparr>)
                 (\<lambda>response. bind_c (lift (raise_for_status response))
                 (\<lambda>u. bind_c (lift (resp_json response))
                 (\<lambda>j. bind_c (lift (py_contains ''success'' j))
                 (\<lambda>success.
                    if success then ret (''Core '' @ core_name @ '' created successfully.'')
                    else ret (''Failed to create core '' @ core_name @ ''. Response: ''
                                @ resp_text response))))))
              is_RequestException
              (\<lambda>e. bind_c (lift (report_response e))
                 (\<lambda>u. ret (''Failed to create core '' @ core_name @ ''. Error: '' @ str_exn e))))"

text \<open>In the baseline the \<^verbatim>\<open>solr.add\<close> call stands inside the \<^verbatim>\<open>with\<close> block.\<close>

definition indexData :: "env \<Rightarrow> string \<Rightarrow> string \<Rightarrow> string comp" where
  "indexData env core_name exclude_column =
     try_except
       (bind_c (with_open env ''employee_data.csv''
                  (\<lambda>rows. Solr_add env (SOLR_URL @ ''/'' @ core_name @ ''/'')
                             (documents_of exclude_column rows)))
          (\<lambda>u. ret (''Data indexed into '' @ core_name @ '', excluding column '' @ exclude_column)))
       is_FileNotFoundError
       (\<lambda>e. ret ''Failed to index data: CSV file not found'')"

definition searchByColumn :: "env \<Rightarrow> string \<Rightarrow> string \<Rightarrow> string \<Rightarrow> pyval comp" where
  "searchByColumn env core_name column_name column_value =
     try_except
       (bind_c (Solr_search env (SOLR_URL @ ''/'' @ core_name @ ''/'')
                  (column_name @ '':'' @ [CHR 0x22] @ column_value @ [CHR 0x22]) [])
          (\<lambda>results. ret (PList (res_docs results))))
       is_Exception
       (\<lambda>e. ret (PStr (''Failed to search: '' @ str_exn e)))"

definition getEmpCount :: "env \<Rightarrow> string \<Rightarrow> pyval comp" where
  "getEmpCount env core_name =
     try_except
       (bind_c (Solr_search env (SOLR_URL @ ''/'' @ core_name @ ''/'') ''*:*'' [(''rows'', ''0'')])
          (\<lambda>results. ret (PInt (res_hits results))))
       is_Exception
       (\<lambda>e. ret (PStr (''Failed to get employee count: '' @ str_exn e)))"

definition delEmpById :: "env \<Rightarrow> string \<Rightarrow> string \<Rightarrow> string comp" where
  "delEmpById env core_name employee_id =
     try_except
       (bind_c (Solr_delete env (SOLR_URL @ ''/'' @ core_name @ ''/'') employee_id)
          (\<lambda>u. ret (''Employee with ID '' @ employee_id @ '' deleted from '' @ core_name)))
       is_Exception
       (\<lambda>e. ret (''Failed to delete employee: '' @ str_exn e))"

definition getDepFacet :: "env \<Rightarrow> string \<Rightarrow> pyval comp" where
  "getDepFacet env core_name =
     try_except
       (bind_c (Solr_search env (SOLR_URL @ ''/'' @ core_name @ ''/'') ''*:*''
                  [(''facet'', ''on''), (''facet_field'', ''Department'')])
          (\<lambda>results. bind_c (lift (facet_dict results))
          (\<lambda>d. ret (PDict d))))
       is_Exception
       (\<lambda>e. ret (PStr (''Failed to get department facet: '' @ str_exn e)))"

definition v_nameCore :: string where
  "v_nameCore = ''Hash_YourName''"

definition v_phoneCore :: string where
  "v_phoneCore = ''Hash_1234''"

text \<open>
  \<^verbatim>\<open>main\<close>: the checks of the results for the substring \<^verbatim>\<open>Failed\<close> only print. An
  exception that leaves \<^verbatim>\<open>main\<close> ends the process with a traceback and a nonzero exit
  status; a return ends it with status 0.
\<close>

definition main :: "env \<Rightarrow> unit comp" where
  "main env =
     bind_c (check_solr_connection env)
       (\<lambda>connected.
          if \<not> connected then ret ()
          else
            bind_c (createCore env v_nameCore)
            (\<lambda>r1. bind_c (createCore env v_phoneCore)
            (\<lambda>r2. bind_c (getEmpCount env v_nameCore)
            (\<lambda>emp_count. bind_c (indexData env v_nameCore ''Department'')
            (\<lambda>index_result1. bind_c (indexData env v_phoneCore ''Gender'')
            (\<lambda>index_result2. bind_c (delEmpById env v_nameCore ''E02003'')
            (\<lambda>del_result. bind_c (getEmpCount env v_nameCore)
            (\<lambda>emp_count. bind_c (searchByColumn env v_nameCore ''Department'' ''IT'')
            (\<lambda>search_result1. bind_c (searchByColumn env v_nameCore ''Gender'' ''Male'')
            (\<lambda>search_result2. bind_c (searchByColumn env v_phoneCore ''Department'' ''IT'')
            (\<lambda>search_result3. bind_c (getDepFacet env v_nameCore)
            (\<lambda>facet_result1. bind_c (getDepFacet env v_phoneCore)
            (\<lambda>facet_result2. ret ())))))))))))))"

section \<open>The refactored script \<^verbatim>\<open>optimized/app.py\<close>\<close>

record SolrClient =
  base_url :: string

definition SolrClient_check_connection :: "env \<Rightarrow> SolrClient \<Rightarrow> bool comp" where
  "SolrClient_check_connection env self =
     try_except
       (bind_c (requests_get env
                  \<lparr>req_url = base_url self @ ''/admin/cores?action=STATUS&wt=json'', req_params = []\<rparr>)
          (\<lambda>response. bind_c (lift (raise_for_status response))
          (\<lambda>u. ret True)))
       is_RequestException
       (\<lambda>e. bind_c (lift (report_response e)) (\<lambda>u. ret False))"

definition SolrClient_check_core_exists :: "env \<Rightarrow> SolrClient \<Rightarrow> string \<Rightarrow> bool comp" where
  "SolrClient_check_core_exists env self core_name =
     try_except
       (bind_c (requests_get env
                  \<lparr>req_url = base_url self @ ''/admin/cores?action=STATUS&core='' @ core_name @ ''&wt=json'',
                   req_params = []\<rparr>)
          (\<lambda>response. bind_c (lift (raise_for_status response))
          (\<lambda>u. bind_c (lift (resp_json response))
          (\<lambda>j. bind_c (lift (py_getitem j ''status''))
          (\<lambda>cores. bind_c (lift (py_contains core_name cores))
          (\<lambda>exists. bind_c (if exists then ret [] else lift (py_keys cores))
          (\<lambda>available. ret exists)))))))
       is_RequestException
       (\<lambda>e. bind_c (lift (report_response e)) (\<lambda>u. ret False))"

definition SolrClient_create_core :: "env \<Rightarrow> SolrClient \<Rightarrow> string \<Rightarrow> string comp" where
  "SolrClient_create_core env self core_name =
     bind_c (SolrClient_check_core_exists env self core_name)
       (\<lambda>exists.
          if exists then ret (''Core '' @ core_name @ '' already exists.'')
          else
            try_except
              (bind_c (requests_get env
                         \<lparr>req_url = base_url self @ ''/admin/cores'',
                          req_params = [(''action'', ''CREATE''), (''name'', core_name),
                                        (''instanceDir'', core_name), (''configSet'', ''_default'')]\<rparr>)
                 (\<lambda>response. bind_c (lift (raise_for_status response))
                 (\<lambda>u. bind_c (lift (resp_json response))
                 (\<lambda>j. bind_c (lift (py_contains ''success'' j))
                 (\<lambda>success.
                    if success then ret (''Core '' @ core_name @ '' created successfully.'')
                    else ret (''Failed to create core '' @ core_name @ ''. Response: ''
                                @ resp_text response))))))
              is_RequestException
              (\<lambda>e. bind_c (lift (report_response e))
                 (\<lambda>u. ret (''Failed to create core '' @ core_name @ ''. Error: '' @ str_exn e))))"

text \<open>
  Here the \<^verbatim>\<open>with\<close> block holds only the reading; \<^verbatim>\<open>solr.add\<close> follows it. The
  first matching \<^verbatim>\<open>except\<close> clause handles the exception.
\<close>

definition SolrClient_index_data :: "env \<Rightarrow> SolrClient \<Rightarrow> string \<Rightarrow> string \<Rightarrow> string \<Rightarrow> string comp" where
  "SolrClient_index_data env self core_name exclude_column csv_file =
     try_except
       (bind_c (with_open env csv_file (\<lambda>rows. ret (documents_of exclude_column rows)))
          (\<lambda>documents. bind_c (Solr_add env (base_url self @ ''/'' @ core_name @ ''/'') documents)
          (\<lambda>u. ret (''Data indexed into '' @ core_name @ '', excluding column '' @ exclude_column))))
       is_Exception
       (\<lambda>e. if is_FileNotFoundError e
             then ret (''Failed to index data: CSV file '' @ csv_file @ '' not found'')
             else ret (''Failed to index data: '' @ str_exn e))"

definition SolrClient_search_by_column ::
  "env \<Rightarrow> SolrClient \<Rightarrow> string \<Rightarrow> string \<Rightarrow> string \<Rightarrow> json list comp" where
  "SolrClient_search_by_column env self core_name column_name column_value =
     try_except
       (bind_c (Solr_search env (base_url self @ ''/'' @ core_name @ ''/'')
                  (column_name @ '':'' @ [CHR 0x22] @ column_value @ [CHR 0x22]) [])
          (\<lambda>results. ret (res_docs results)))
       is_Exception
       (\<lambda>e. ret [])"

definition SolrClient_get_employee_count :: "env \<Rightarrow> SolrClient \<Rightarrow> string \<Rightarrow> pyval comp" where
  "SolrClient_get_employee_count env self core_name =
     try_except
       (bind_c (Solr_search env (base_url self @ ''/'' @ core_name @ ''/'') ''*:*'' [(''rows'', ''0'')])
          (\<lambda>results. ret (PInt (res_hits results))))
       is_Exception
       (\<lambda>e. ret (PStr (''Failed to get employee count: '' @ str_exn e)))"

definition SolrClient_delete_employee_by_id :: "env \<Rightarrow> SolrClient \<Rightarrow> string \<Rightarrow> string \<Rightarrow> string comp" where
  "SolrClient_delete_employee_by_id env self core_name employee_id =
     try_except
       (bind_c (Solr_delete env (base_url self @ ''/'' @ core_name @ ''/'') employee_id)
          (\<lambda>u. ret (''Employee with ID '' @ employee_id @ '' deleted from '' @ core_name)))
       is_Exception
       (\<lambda>e. ret (''Failed to delete employee: '' @ str_exn e))"

definition SolrClient_get_department_facet ::
  "env \<Rightarrow> SolrClient \<Rightarrow> string \<Rightarrow> (json \<times> json) list comp" where
  "SolrClient_get_department_facet env self core_name =
     try_except
       (bind_c (Solr_search env (base_url self @ ''/'' @ core_name @ ''/'') ''*:*''
                  [(''facet'', ''on''), (''facet_field'', ''Department'')])
          (\<lambda>results. lift (facet_dict results)))
       is_Exception
       (\<lambda>e. ret [])"

fun setup_cores :: "env \<Rightarrow> SolrClient \<Rightarrow> string list \<Rightarrow> unit comp" where
  "setup_cores env client [] = ret ()"
| "setup_cores env client (core_name # core_names) =
     bind_c (SolrClient_create_core env client core_name)
       (\<lambda>result. setup_cores env client core_names)"

fun index_data_to_cores :: "env \<Rightarrow> SolrClient \<Rightarrow> (string \<times> string) list \<Rightarrow> string \<Rightarrow> unit comp" where
  "index_data_to_cores env client [] csv_file = ret ()"
| "index_data_to_cores env client ((core_name, exclude_column) # core_configs) csv_file =
     bind_c (SolrClient_index_data env client core_name exclude_column csv_file)
       (\<lambda>result. index_data_to_cores env client core_configs csv_file)"

text \<open>\<^verbatim>\<open>os.getenv(key, default)\<close>\<close>

definition getenv :: "env \<Rightarrow> string \<Rightarrow> string \<Rightarrow> string" where
  "getenv env key dflt = (case environ env key of Some v \<Rightarrow> v | None \<Rightarrow> dflt)"

definition perform_operations :: "env \<Rightarrow> SolrClient \<Rightarrow> string \<Rightarrow> unit comp" where
  "perform_operations env client core_name =
     bind_c (SolrClient_delete_employee_by_id env client core_name
               (getenv env ''EMPLOYEE_ID_TO_DELETE'' ''E02003''))
     (\<lambda>del_result. bind_c (SolrClient_get_employee_count env client core_name)
     (\<lambda>emp_count. bind_c (SolrClient_search_by_column env client core_name ''Department''
                             (getenv env ''SEARCH_DEPARTMENT'' ''IT''))
     (\<lambda>search_result. bind_c (SolrClient_get_department_facet env client core_name)
     (\<lambda>facet_result. ret ()))))"

fun perform_all :: "env \<Rightarrow> SolrClient \<Rightarrow> string list \<Rightarrow> unit comp" where
  "perform_all env client [] = ret ()"
| "perform_all env client (core_name # core_names) =
     bind_c (perform_operations env client core_name)
       (\<lambda>u. perform_all env client core_names)"

text \<open>\<^verbatim>\<open>s.split(',')\<close>\<close>

fun split_on :: "char \<Rightarrow> string \<Rightarrow> string list" where
  "split_on sep [] = [[]]"
| "split_on sep (c # cs) =
     (if c = sep then [] # split_on sep cs
      else (case split_on sep cs of w # ws \<Rightarrow> (c # w) # ws | [] \<Rightarrow> [[c]]))"

text \<open>
  \<^verbatim>\<open>s.upper()\<close>. A string is its UTF-8 bytes. On ASCII text the result is the text
  with the letters a to z replaced by A to Z; on text with a byte outside ASCII the
  result is what the interpreter's Unicode case mapping gives.
\<close>

definition upper_char :: "char \<Rightarrow> char" where
  "upper_char c =
     (case map_of (zip ''abcdefghijklmnopqrstuvwxyz'' ''ABCDEFGHIJKLMNOPQRSTUVWXYZ'') c of
        Some u \<Rightarrow> u
      | None \<Rightarrow> c)"

definition is_ascii :: "string \<Rightarrow> bool" where
  "is_ascii s = list_all (\<lambda>c. \<not> digit7 c) s"

definition py_upper :: "env \<Rightarrow> string \<Rightarrow> string" where
  "py_upper env s = (if is_ascii s then map upper_char s else str_upper env s)"

text \<open>
  The dictionary comprehension of \<^verbatim>\<open>main\<close>:
  \<^verbatim>\<open>{core_name: os.getenv(f'{core_name.upper()}_EXCLUDE_COLUMN', 'Department') for ...}\<close>
\<close>

definition core_configs :: "env \<Rightarrow> string list \<Rightarrow> (string \<times> string) list" where
  "core_configs env core_names =
     fold (\<lambda>core_name d.
             AList.update core_name
               (getenv env (py_upper env core_name @ ''_EXCLUDE_COLUMN'') ''Department'') d)
       core_names []"

definition optimized_main :: "env \<Rightarrow> unit comp" where
  "optimized_main env =
     (let client = \<lparr>base_url = getenv env ''SOLR_URL'' ''http://localhost:8983/solr''\<rparr> in
      bind_c (SolrClient_check_connection env client)
        (\<lambda>connected.
           if \<not> connected then ret ()
           else
             (let core_names = split_on (CHR '','') (getenv env ''CORE_NAMES'' ''Hash_YourName,Hash_1234'') in
              bind_c (setup_cores env client core_names)
              (\<lambda>u. let csv_file = getenv env ''CSV_FILE'' ''employee_data.csv'' in
                 bind_c (index_data_to_cores env client (core_configs env core_names) csv_file)
              (\<lambda>u. perform_all env client core_names)))))"

section \<open>Notions used to state the properties\<close>

text \<open>The two requests of the core admin API, as the scripts build them.\<close>

definition status_request :: "string \<Rightarrow> string \<Rightarrow> http_request" where
  "status_request base core_name =
     \<lparr>req_url = base @ ''/admin/cores?action=STATUS&core='' @ core_name @ ''&wt=json'',
      req_params = []\<rparr>"

definition create_request :: "string \<Rightarrow> string \<Rightarrow> http_request" where
  "create_request base core_name =
     \<lparr>req_url = base @ ''/admin/cores'',
      req_params = [(''action'', ''CREATE''), (''name'', core_name),
                    (''instanceDir'', core_name), (''configSet'', ''_default'')]\<rparr>"

definition connection_request :: "string \<Rightarrow> http_request" where
  "connection_request base =
     \<lparr>req_url = base @ ''/admin/cores?action=STATUS&wt=json'', req_params = []\<rparr>"

text \<open>The cores named by the CREATE requests of a history.\<close>

fun create_name :: "event \<Rightarrow> string option" where
  "create_name (HttpGet rq) =
     (if map_of (req_params rq) ''action'' = Some ''CREATE''
      then map_of (req_params rq) ''name'' else None)"
| "create_name ev = None"

definition cores_created :: "trace \<Rightarrow> string list" where
  "cores_created h = List.map_filter create_name h"

text \<open>
  A server that keeps its cores and answers as the scripts expect: a STATUS request is
  answered with a success status and a JSON object whose \<^verbatim>\<open>status\<close> member lists the
  core asked for exactly when a CREATE request has named it before; a CREATE request for
  a core not yet created is answered with a success status and a JSON object with a
  \<^verbatim>\<open>success\<close> member.
\<close>

definition core_server :: "string \<Rightarrow> env \<Rightarrow> bool" where
  "core_server base env \<longleftrightarrow>
     (\<forall>h c. \<exists>r j cores.
        http_get env h (status_request base c) = Ret r \<and> raise_for_status r = Ret () \<and>
        resp_json r = Ret j \<and> py_getitem j ''status'' = Ret (JDict cores) \<and>
        (c \<in> set (map fst cores)) = (c \<in> set (cores_created h))) \<and>
     (\<forall>h c. c \<notin> set (cores_created h) \<longrightarrow>
        (\<exists>r j. http_get env h (create_request base c) = Ret r \<and> raise_for_status r = Ret () \<and>
           resp_json r = Ret j \<and> py_contains ''success'' j = Ret True))"

text \<open>
  An add request is sent while a file is open: \<open>n\<close> counts the files open at the start
  of the trace.
\<close>

fun add_while_open :: "nat \<Rightarrow> trace \<Rightarrow> bool" where
  "add_while_open n [] = False"
| "add_while_open n (FileOpen p # t) = add_while_open (Suc n) t"
| "add_while_open n (FileClose p # t) = add_while_open (n - 1) t"
| "add_while_open n (SolrAdd u ds # t) = (0 < n \<or> add_while_open n t)"
| "add_while_open n (ev # t) = add_while_open n t"

text \<open>The documents of the add requests of a trace, with the core URL they went to.\<close>

fun added :: "trace \<Rightarrow> (string \<times> doc list) list" where
  "added [] = []"
| "added (SolrAdd u ds # t) = (u, ds) # added t"
| "added (ev # t) = added t"

section \<open>Sample environments\<close>

text \<open>A server that lists the cores created so far and accepts every CREATE request.\<close>

definition sample_server :: "trace \<Rightarrow> http_request \<Rightarrow> http_response res" where
  "sample_server h rq =
     (if map_of (req_params rq) ''action'' = Some ''CREATE''
      then Ret \<lparr>resp_status_code = 200, resp_text = ''created'',
                resp_json = Ret (JDict [(''success'', JDict [])]), resp_error_msg = []\<rparr>
      else Ret \<lparr>resp_status_code = 200, resp_text = ''status'',
                resp_json = Ret (JDict [(''status'', JDict (map (\<lambda>c. (c, JDict [])) (cores_created h)))]),
                resp_error_msg = []\<rparr>)"

definition sample_csv :: "string list list" where
  "sample_csv =
     [[''Employee ID'', ''Department'', ''Gender''],
      [''E02002'', ''IT'', ''Male''],
      [''E02003'', ''Finance'', ''Female'']]"

definition sample_results :: results where
  "sample_results =
     \<lparr>res_docs = [JDict [(''Employee ID'', JStr ''E02002'')]], res_hits = 1,
      res_facets = JDict [(''facet_fields'',
                     JDict [(''Department'', JList [JStr ''IT'', JInt 1, JStr ''Finance'', JInt 0])])]\<rparr>"

text \<open>
  Everything works: the server answers, the CSV file is there, and the process
  environment holds none of the variables the refactored script reads.
\<close>

definition sample_env :: env where
  "sample_env =
     \<lparr>http_get = sample_server,
      open_file = (\<lambda>path. if path = ''employee_data.csv'' then Ret sample_csv
                           else Raise (FileNotFoundError ''No such file or directory'')),
      solr_add = (\<lambda>h u ds. Ret ()),
      solr_search = (\<lambda>h u q kw. Ret sample_results),
      solr_delete = (\<lambda>h u i. Ret ()),
      environ = (\<lambda>k. if k = ''PATH'' then Some ''/usr/bin:/bin'' else None),
      str_upper = (\<lambda>s. s)\<rparr>"

text \<open>The server rejects every batch of documents: \<^verbatim>\<open>solr.add\<close> raises \<^verbatim>\<open>SolrError\<close>.\<close>

definition rejecting_env :: env where
  "rejecting_env =
     sample_env\<lparr>solr_add := (\<lambda>h u ds. Raise (SolrError ''Solr responded with an error (HTTP 400)''))\<rparr>"

text \<open>Every search fails.\<close>

definition search_failing_env :: env where
  "search_failing_env =
     sample_env\<lparr>solr_search := (\<lambda>h u q kw. Raise (SolrError ''Solr responded with an error (HTTP 404)''))\<rparr>"

text \<open>
  Nothing listens at the address: \<^verbatim>\<open>requests.get\<close> raises \<^verbatim>\<open>ConnectionError\<close>,
  whose \<^verbatim>\<open>response\<close> is \<^verbatim>\<open>None\<close>.
\<close>

definition unreachable_env :: env where
  "unreachable_env =
     sample_env\<lparr>http_get := (\<lambda>h rq. Raise (RequestException ''Connection refused'' AttrNone))\<rparr>"

text \<open>The server answers every request with status 200 and the JSON object \<^verbatim>\<open>{}\<close>.\<close>

definition empty_json_env :: env where
  "empty_json_env =
     sample_env\<lparr>http_get := (\<lambda>h rq. Ret \<lparr>resp_status_code = 200, resp_text = ''{}'',
                                          resp_json = Ret (JDict []), resp_error_msg = []\<rparr>)\<rparr>"

text \<open>A CSV file whose data row has one field more than the header.\<close>

definition ragged_env :: env where
  "ragged_env =
     sample_env\<lparr>open_file := (\<lambda>path. Ret [[''A'', ''B'', ''C''], [''1'', ''2'', ''3'', ''4'']])\<rparr>"

text \<open>The server answers every request with the HTTP status 500.\<close>

definition http_error_env :: env where
  "http_error_env =
     sample_env\<lparr>http_get := (\<lambda>h rq. Ret \<lparr>resp_status_code = 500, resp_text = ''Internal Server Error'',
                                          resp_json = Ret JNull,
                                          resp_error_msg = ''500 Server Error''\<rparr>)\<rparr>"

text \<open>
  The client gives up on a chain of redirections: \<^verbatim>\<open>requests.get\<close> raises
  \<^verbatim>\<open>TooManyRedirects\<close>, which carries the last response.
\<close>

definition redirecting_env :: env where
  "redirecting_env =
     sample_env\<lparr>http_get := (\<lambda>h rq. Raise (RequestException ''Exceeded 30 redirects.''
                                                 (AttrResp 302 [])))\<rparr>"

text \<open>
  The answers of Solr's core admin API: a STATUS request that names a core is answered
  with that core under \<^verbatim>\<open>status\<close>, with an empty entry when there is no such core; a
  CREATE request is answered with a \<^verbatim>\<open>core\<close> member and no \<^verbatim>\<open>success\<close> member.
\<close>

fun after_substring :: "string \<Rightarrow> string \<Rightarrow> string option" where
  "after_substring key [] = (if key = [] then Some [] else None)"
| "after_substring key (c # cs) =
     (if take (length key) (c # cs) = key then Some (drop (length key) (c # cs))
      else after_substring key cs)"

definition asked_core :: "string \<Rightarrow> string option" where
  "asked_core u =
     (case after_substring ''&core='' u of
        None \<Rightarrow> None
      | Some rest \<Rightarrow> Some (takeWhile (\<lambda>c. c \<noteq> CHR ''&'') rest))"

definition solr_like_server :: "trace \<Rightarrow> http_request \<Rightarrow> http_response res" where
  "solr_like_server h rq =
     (if map_of (req_params rq) ''action'' = Some ''CREATE''
      then Ret \<lparr>resp_status_code = 200, resp_text = ''created'',
                resp_json = Ret (JDict [(''responseHeader'', JDict [(''status'', JInt 0)]),
                                        (''core'', JStr (case map_of (req_params rq) ''name'' of
                                                           Some c \<Rightarrow> c | None \<Rightarrow> []))]),
                resp_error_msg = []\<rparr>
      else Ret \<lparr>resp_status_code = 200, resp_text = ''status'',
                resp_json = Ret (JDict [(''responseHeader'', JDict [(''status'', JInt 0)]),
                                        (''initFailures'', JDict []),
                                        (''status'', JDict
                                           (case asked_core (req_url rq) of
                                              Some c \<Rightarrow>
                                                [(c, JDict (if c \<in> set (cores_created h)
                                                            then [(''name'', JStr c)] else []))]
                                            | None \<Rightarrow>
                                                map (\<lambda>c. (c, JDict [(''name'', JStr c)]))
                                                  (cores_created h)))]),
                resp_error_msg = []\<rparr>)"

definition solr_like_env :: env where
  "solr_like_env = sample_env\<lparr>http_get := solr_like_server\<rparr>"

section \<open>Properties\<close>

lemmas comp_defs = ret_def lift_def bind_c_def try_except_def requests_get_def
  Solr_add_def Solr_search_def Solr_delete_def with_open_def

subsection \<open>The query of a search\<close>

text \<open>
  C6. For every field name and value, search-by-column (in both scripts) sends exactly
  one search request, and its query string is the field name, a colon, a double quote,
  the value as it is, and a double quote: no character of the value is escaped or
  changed, so a double quote or colon in the value becomes part of the query syntax.
\<close>

theorem search_query_unescaped:
  "snd (searchByColumn env core_name column_name column_value t) =
     t @ [SolrSearch (SOLR_URL @ ''/'' @ core_name @ ''/'')
            (column_name @ '':'' @ [CHR 0x22] @ column_value @ [CHR 0x22]) []]
   \<and> snd (SolrClient_search_by_column env self core_name column_name column_value t) =
     t @ [SolrSearch (base_url self @ ''/'' @ core_name @ ''/'')
            (column_name @ '':'' @ [CHR 0x22] @ column_value @ [CHR 0x22]) []]"
  by (simp add: searchByColumn_def SolrClient_search_by_column_def comp_defs split: res.splits)

subsection \<open>Basic facts\<close>

lemma requests_of_Nil [simp]: "requests_of [] = []"
  by (simp add: requests_of_def)

lemma requests_of_Cons [simp]:
  "requests_of (ev # t) = (if is_request ev then ev # requests_of t else requests_of t)"
  by (simp add: requests_of_def)

lemma requests_of_append [simp]: "requests_of (t @ u) = requests_of t @ requests_of u"
  by (simp add: requests_of_def)

lemma report_response_not_request:
  "report_response e = Raise e' \<Longrightarrow> \<not> is_RequestException e'"
  by (induction e rule: report_response.induct) auto

subsection \<open>Which operations can raise\<close>

lemma searchByColumn_returns:
  "(\<exists>ds. fst (searchByColumn env c f v t) = Ret (PList ds)) \<or>
   (\<exists>m. fst (searchByColumn env c f v t) = Ret (PStr (''Failed to search: '' @ m)))"
  by (simp add: searchByColumn_def comp_defs split: res.splits)

lemma getEmpCount_returns:
  "(\<exists>n. fst (getEmpCount env c t) = Ret (PInt n)) \<or>
   (\<exists>m. fst (getEmpCount env c t) = Ret (PStr (''Failed to get employee count: '' @ m)))"
  by (simp add: getEmpCount_def comp_defs split: res.splits)

lemma delEmpById_returns: "\<exists>s. fst (delEmpById env c i t) = Ret s"
  by (simp add: delEmpById_def comp_defs split: res.splits)

lemma getDepFacet_returns:
  "(\<exists>d. fst (getDepFacet env c t) = Ret (PDict d)) \<or>
   (\<exists>m. fst (getDepFacet env c t) = Ret (PStr (''Failed to get department facet: '' @ m)))"
  by (simp add: getDepFacet_def comp_defs split: res.splits)

lemma index_data_returns: "\<exists>s. fst (SolrClient_index_data env self c x p t) = Ret s"
  by (simp add: SolrClient_index_data_def comp_defs split: res.splits prod.splits)

lemma search_by_column_returns:
  "\<exists>ds. fst (SolrClient_search_by_column env self c f v t) = Ret ds"
  by (simp add: SolrClient_search_by_column_def comp_defs split: res.splits)

lemma get_employee_count_returns:
  "(\<exists>n. fst (SolrClient_get_employee_count env self c t) = Ret (PInt n)) \<or>
   (\<exists>m. fst (SolrClient_get_employee_count env self c t) =
          Ret (PStr (''Failed to get employee count: '' @ m)))"
  by (simp add: SolrClient_get_employee_count_def comp_defs split: res.splits)

lemma delete_employee_by_id_returns:
  "\<exists>s. fst (SolrClient_delete_employee_by_id env self c i t) = Ret s"
  by (simp add: SolrClient_delete_employee_by_id_def comp_defs split: res.splits)

lemma get_department_facet_returns:
  "\<exists>d. fst (SolrClient_get_department_facet env self c t) = Ret d"
  by (simp add: SolrClient_get_department_facet_def comp_defs split: res.splits)

text \<open>
  The handlers of the three HTTP operations catch \<^verbatim>\<open>RequestException\<close> only: what
  these operations raise is of another class.
\<close>

lemma check_solr_connection_raises:
  "check_solr_connection env t = (Raise e, t') \<Longrightarrow> \<not> is_RequestException e"
  by (auto simp add: check_solr_connection_def comp_defs raise_for_status_def
      split: res.splits if_splits dest: report_response_not_request)

lemma check_core_exists_raises:
  "check_core_exists env c t = (Raise e, t') \<Longrightarrow> \<not> is_RequestException e"
  by (auto simp add: check_core_exists_def comp_defs
      split: res.splits if_splits dest: report_response_not_request)

lemma createCore_raises:
  "createCore env c t = (Raise e, t') \<Longrightarrow> \<not> is_RequestException e"
  by (auto simp add: createCore_def comp_defs
      split: res.splits if_splits prod.splits
      dest: report_response_not_request check_core_exists_raises)

lemma check_connection_raises:
  "SolrClient_check_connection env self t = (Raise e, t') \<Longrightarrow> \<not> is_RequestException e"
  by (auto simp add: SolrClient_check_connection_def comp_defs raise_for_status_def
      split: res.splits if_splits dest: report_response_not_request)

lemma client_check_core_exists_raises:
  "SolrClient_check_core_exists env self c t = (Raise e, t') \<Longrightarrow> \<not> is_RequestException e"
  by (auto simp add: SolrClient_check_core_exists_def comp_defs
      split: res.splits if_splits dest: report_response_not_request)

lemma create_core_raises:
  "SolrClient_create_core env self c t = (Raise e, t') \<Longrightarrow> \<not> is_RequestException e"
  by (auto simp add: SolrClient_create_core_def comp_defs
      split: res.splits if_splits prod.splits
      dest: report_response_not_request client_check_core_exists_raises)

subsection \<open>The refactored client against the baseline\<close>

lemma check_connection_same:
  "base_url self = SOLR_URL \<Longrightarrow> SolrClient_check_connection env self = check_solr_connection env"
  by (simp add: SolrClient_check_connection_def check_solr_connection_def)

lemma check_core_exists_same:
  "base_url self = SOLR_URL \<Longrightarrow> SolrClient_check_core_exists env self c = check_core_exists env c"
  by (simp add: SolrClient_check_core_exists_def check_core_exists_def)

lemma create_core_same:
  "base_url self = SOLR_URL \<Longrightarrow> SolrClient_create_core env self c = createCore env c"
  by (simp add: SolrClient_create_core_def createCore_def check_core_exists_same cong: if_cong)

lemma get_employee_count_same:
  "base_url self = SOLR_URL \<Longrightarrow> SolrClient_get_employee_count env self c = getEmpCount env c"
  by (simp add: SolrClient_get_employee_count_def getEmpCount_def)

lemma delete_employee_by_id_same:
  "base_url self = SOLR_URL \<Longrightarrow>
   SolrClient_delete_employee_by_id env self c i = delEmpById env c i"
  by (simp add: SolrClient_delete_employee_by_id_def delEmpById_def)

lemma search_same_trace:
  "base_url self = SOLR_URL \<Longrightarrow>
   snd (SolrClient_search_by_column env self c f v t) = snd (searchByColumn env c f v t)"
  by (simp add: SolrClient_search_by_column_def searchByColumn_def comp_defs split: res.splits)

lemma search_same_list:
  "base_url self = SOLR_URL \<Longrightarrow> fst (searchByColumn env c f v t) = Ret (PList ds) \<Longrightarrow>
   fst (SolrClient_search_by_column env self c f v t) = Ret ds"
  by (simp add: SolrClient_search_by_column_def searchByColumn_def comp_defs split: res.splits)

lemma search_failure_empty:
  "base_url self = SOLR_URL \<Longrightarrow> fst (searchByColumn env c f v t) = Ret (PStr m) \<Longrightarrow>
   fst (SolrClient_search_by_column env self c f v t) = Ret []"
  by (simp add: SolrClient_search_by_column_def searchByColumn_def comp_defs split: res.splits)

lemma facet_same_trace:
  "base_url self = SOLR_URL \<Longrightarrow>
   snd (SolrClient_get_department_facet env self c t) = snd (getDepFacet env c t)"
  by (simp add: SolrClient_get_department_facet_def getDepFacet_def comp_defs split: res.splits)

lemma facet_same_dict:
  "base_url self = SOLR_URL \<Longrightarrow> fst (getDepFacet env c t) = Ret (PDict d) \<Longrightarrow>
   fst (SolrClient_get_department_facet env self c t) = Ret d"
  by (auto simp add: SolrClient_get_department_facet_def getDepFacet_def comp_defs
      split: res.splits)

lemma facet_failure_empty:
  "base_url self = SOLR_URL \<Longrightarrow> fst (getDepFacet env c t) = Ret (PStr m) \<Longrightarrow>
   fst (SolrClient_get_department_facet env self c t) = Ret []"
  by (auto simp add: SolrClient_get_department_facet_def getDepFacet_def comp_defs
      split: res.splits)

subsection \<open>The trace and the result of indexing\<close>

lemma indexData_trace:
  "open_file env ''employee_data.csv'' = Ret rows \<Longrightarrow>
   snd (indexData env c x t) =
     t @ [FileOpen ''employee_data.csv'',
          SolrAdd (SOLR_URL @ ''/'' @ c @ ''/'') (documents_of x rows),
          FileClose ''employee_data.csv'']"
  by (simp add: indexData_def comp_defs split: res.splits)

lemma indexData_no_file:
  "open_file env ''employee_data.csv'' = Raise e \<Longrightarrow> snd (indexData env c x t) = t"
  by (simp add: indexData_def comp_defs split: res.splits)

lemma index_data_trace:
  "open_file env p = Ret rows \<Longrightarrow>
   snd (SolrClient_index_data env self c x p t) =
     t @ [FileOpen p, FileClose p,
          SolrAdd (base_url self @ ''/'' @ c @ ''/'') (documents_of x rows)]"
  by (simp add: SolrClient_index_data_def comp_defs split: res.splits)

lemma index_data_no_file:
  "open_file env p = Raise e \<Longrightarrow> snd (SolrClient_index_data env self c x p t) = t"
  by (simp add: SolrClient_index_data_def comp_defs split: res.splits)

lemma index_data_closed_before_add:
  "\<not> add_while_open 0 (snd (SolrClient_index_data env self c x p []))"
proof (cases "open_file env p")
  case (Ret rows)
  then show ?thesis by (simp add: index_data_trace)
next
  case (Raise e)
  then show ?thesis by (simp add: index_data_no_file)
qed

lemma index_success_same:
  assumes "base_url self = SOLR_URL"
    and "open_file env ''employee_data.csv'' = Ret rows"
    and "solr_add env (requests_of t) (SOLR_URL @ ''/'' @ c @ ''/'') (documents_of x rows) = Ret ()"
  shows "fst (indexData env c x t) = Ret (''Data indexed into '' @ c @ '', excluding column '' @ x)"
    and "fst (SolrClient_index_data env self c x ''employee_data.csv'' t) =
           Ret (''Data indexed into '' @ c @ '', excluding column '' @ x)"
  using assms
  by (simp_all add: indexData_def SolrClient_index_data_def comp_defs)

text \<open>What the two index operations return when the file is missing or the batch rejected.\<close>

lemma indexData_missing_file:
  "open_file env ''employee_data.csv'' = Raise (FileNotFoundError m) \<Longrightarrow>
   fst (indexData env c x t) = Ret ''Failed to index data: CSV file not found''"
  by (simp add: indexData_def comp_defs)

lemma index_data_missing_file:
  "open_file env p = Raise (FileNotFoundError m) \<Longrightarrow>
   fst (SolrClient_index_data env self c x p t) =
     Ret (''Failed to index data: CSV file '' @ p @ '' not found'')"
  by (simp add: SolrClient_index_data_def comp_defs)

lemma index_data_rejected:
  "open_file env p = Ret rows \<Longrightarrow>
   solr_add env (requests_of t) (base_url self @ ''/'' @ c @ ''/'') (documents_of x rows)
     = Raise (SolrError m) \<Longrightarrow>
   fst (SolrClient_index_data env self c x p t) = Ret (''Failed to index data: '' @ m)"
  by (simp add: SolrClient_index_data_def comp_defs)

lemma indexData_rejected:
  "open_file env ''employee_data.csv'' = Ret rows \<Longrightarrow>
   solr_add env (requests_of t) (SOLR_URL @ ''/'' @ c @ ''/'') (documents_of x rows)
     = Raise (SolrError m) \<Longrightarrow>
   fst (indexData env c x t) = Raise (SolrError m)"
  by (simp add: indexData_def comp_defs)

subsection \<open>Refactored client and baseline script compared\<close>

text \<open>
  C1, as stated: every operation of the baseline returns the same result as the method
  of the refactored client. It fails for search by column: when the search fails, the
  baseline returns a failure string and the refactored method the empty list.
\<close>

theorem refactor_differs_on_failed_search:
  "fst (searchByColumn search_failing_env ''Hash_YourName'' ''Department'' ''IT'' []) =
     Ret (PStr ''Failed to search: Solr responded with an error (HTTP 404)'')
   \<and> fst (SolrClient_search_by_column search_failing_env \<lparr>base_url = SOLR_URL\<rparr>
            ''Hash_YourName'' ''Department'' ''IT'' []) = Ret []
   \<and> PStr ''Failed to search: Solr responded with an error (HTTP 404)'' \<noteq> PList []"
  by code_simp

text \<open>
  C1, amended. For a client whose base URL is the baseline's \<open>SOLR_URL\<close>: check
  connection, core exists, create core, get count and delete by id are the same
  computations as the baseline's functions (same result or exception, same requests)
  for every input and server behaviour. Search by column and get facet counts send the
  same request as the baseline; where the baseline returns a list or mapping the method
  returns the same one, and where the baseline returns a failure string the method
  returns the empty list or mapping. Index data, for the baseline's file name, returns
  the same success message and sends the same request when the file opens and the
  server accepts the batch.
\<close>

theorem refactor_agrees_with_baseline:
  assumes "base_url self = SOLR_URL"
  shows
    "SolrClient_check_connection env self t = check_solr_connection env t \<and>
     SolrClient_check_core_exists env self c t = check_core_exists env c t \<and>
     SolrClient_create_core env self c t = createCore env c t \<and>
     SolrClient_get_employee_count env self c t = getEmpCount env c t \<and>
     SolrClient_delete_employee_by_id env self c i t = delEmpById env c i t \<and>
     snd (SolrClient_search_by_column env self c f v t) = snd (searchByColumn env c f v t) \<and>
     (fst (searchByColumn env c f v t) = Ret (PList ds) \<longrightarrow>
        fst (SolrClient_search_by_column env self c f v t) = Ret ds) \<and>
     (fst (searchByColumn env c f v t) = Ret (PStr m) \<longrightarrow>
        fst (SolrClient_search_by_column env self c f v t) = Ret []) \<and>
     snd (SolrClient_get_department_facet env self c t) = snd (getDepFacet env c t) \<and>
     (fst (getDepFacet env c t) = Ret (PDict d) \<longrightarrow>
        fst (SolrClient_get_department_facet env self c t) = Ret d) \<and>
     (fst (getDepFacet env c t) = Ret (PStr m') \<longrightarrow>
        fst (SolrClient_get_department_facet env self c t) = Ret []) \<and>
     (open_file env ''employee_data.csv'' = Ret rows \<and>
      solr_add env (requests_of t) (SOLR_URL @ ''/'' @ c @ ''/'') (documents_of x rows) = Ret () \<longrightarrow>
        fst (indexData env c x t) = Ret (''Data indexed into '' @ c @ '', excluding column '' @ x) \<and>
        fst (SolrClient_index_data env self c x ''employee_data.csv'' t) = fst (indexData env c x t) \<and>
        requests_of (snd (SolrClient_index_data env self c x ''employee_data.csv'' t)) =
          requests_of (snd (indexData env c x t)))"
proof -
  have idx: "fst (indexData env c x t) = Ret (''Data indexed into '' @ c @ '', excluding column '' @ x) \<and>
        fst (SolrClient_index_data env self c x ''employee_data.csv'' t) = fst (indexData env c x t) \<and>
        requests_of (snd (SolrClient_index_data env self c x ''employee_data.csv'' t)) =
          requests_of (snd (indexData env c x t))"
    if op: "open_file env ''employee_data.csv'' = Ret rows"
      and ad: "solr_add env (requests_of t) (SOLR_URL @ ''/'' @ c @ ''/'') (documents_of x rows) = Ret ()"
    using index_success_same [OF assms op ad] indexData_trace [OF op, of c x t]
      index_data_trace [OF op, of self c x t] assms
    by simp
  show ?thesis
    using assms idx
    by (simp add: check_connection_same check_core_exists_same create_core_same
        get_employee_count_same delete_employee_by_id_same search_same_trace search_same_list
        search_failure_empty facet_same_trace facet_same_dict facet_failure_empty)
qed

theorem refactor_agrees_with_baseline_witness:
  "SolrClient_create_core sample_env \<lparr>base_url = SOLR_URL\<rparr> ''Hash_1234'' [] =
     createCore sample_env ''Hash_1234'' [] \<and>
   fst (SolrClient_search_by_column sample_env \<lparr>base_url = SOLR_URL\<rparr>
          ''Hash_1234'' ''Department'' ''IT'' []) = Ret [JDict [(''Employee ID'', JStr ''E02002'')]] \<and>
   fst (SolrClient_search_by_column search_failing_env \<lparr>base_url = SOLR_URL\<rparr>
          ''Hash_1234'' ''Department'' ''IT'' []) = Ret [] \<and>
   fst (SolrClient_get_department_facet sample_env \<lparr>base_url = SOLR_URL\<rparr> ''Hash_1234'' []) =
     Ret [(JStr ''IT'', JInt 1), (JStr ''Finance'', JInt 0)] \<and>
   fst (SolrClient_get_department_facet search_failing_env \<lparr>base_url = SOLR_URL\<rparr> ''Hash_1234'' []) =
     Ret [] \<and>
   fst (SolrClient_index_data sample_env \<lparr>base_url = SOLR_URL\<rparr> ''Hash_1234'' ''Gender''
          ''employee_data.csv'' []) = Ret ''Data indexed into Hash_1234, excluding column Gender''"
proof -
  have b: "base_url \<lparr>base_url = SOLR_URL\<rparr> = SOLR_URL" by simp
  have s1: "fst (searchByColumn sample_env ''Hash_1234'' ''Department'' ''IT'' []) =
      Ret (PList [JDict [(''Employee ID'', JStr ''E02002'')]])"
    by code_simp
  have s2: "fst (searchByColumn search_failing_env ''Hash_1234'' ''Department'' ''IT'' []) =
      Ret (PStr ''Failed to search: Solr responded with an error (HTTP 404)'')"
    by code_simp
  have f1: "fst (getDepFacet sample_env ''Hash_1234'' []) =
      Ret (PDict [(JStr ''IT'', JInt 1), (JStr ''Finance'', JInt 0)])"
    by code_simp
  have f2: "fst (getDepFacet search_failing_env ''Hash_1234'' []) =
      Ret (PStr ''Failed to get department facet: Solr responded with an error (HTTP 404)'')"
    by code_simp
  have o: "open_file sample_env ''employee_data.csv'' = Ret sample_csv"
    by (simp add: sample_env_def)
  have a: "solr_add sample_env (requests_of []) (SOLR_URL @ ''/'' @ ''Hash_1234'' @ ''/'')
      (documents_of ''Gender'' sample_csv) = Ret ()"
    by (simp add: sample_env_def)
  have c1: "SolrClient_create_core sample_env \<lparr>base_url = SOLR_URL\<rparr> ''Hash_1234'' [] =
     createCore sample_env ''Hash_1234'' []"
    using refactor_agrees_with_baseline [OF b] by blast
  have c2: "fst (SolrClient_search_by_column sample_env \<lparr>base_url = SOLR_URL\<rparr>
          ''Hash_1234'' ''Department'' ''IT'' []) = Ret [JDict [(''Employee ID'', JStr ''E02002'')]]"
    using refactor_agrees_with_baseline [OF b, where env = sample_env and t = "[]" and c = "''Hash_1234''"
        and f = "''Department''" and v = "''IT''"] s1
    by blast
  have c3: "fst (SolrClient_search_by_column search_failing_env \<lparr>base_url = SOLR_URL\<rparr>
          ''Hash_1234'' ''Department'' ''IT'' []) = Ret []"
    using refactor_agrees_with_baseline [OF b, where env = search_failing_env and t = "[]"
        and c = "''Hash_1234''" and f = "''Department''" and v = "''IT''"] s2
    by blast
  have c4: "fst (SolrClient_get_department_facet sample_env \<lparr>base_url = SOLR_URL\<rparr> ''Hash_1234'' []) =
     Ret [(JStr ''IT'', JInt 1), (JStr ''Finance'', JInt 0)]"
    using refactor_agrees_with_baseline [OF b, where env = sample_env and t = "[]" and c = "''Hash_1234''"] f1
    by blast
  have c5: "fst (SolrClient_get_department_facet search_failing_env \<lparr>base_url = SOLR_URL\<rparr> ''Hash_1234'' []) =
     Ret []"
    using refactor_agrees_with_baseline [OF b, where env = search_failing_env and t = "[]"
        and c = "''Hash_1234''"] f2
    by blast
  have "fst (indexData sample_env ''Hash_1234'' ''Gender'' []) =
           Ret (''Data indexed into '' @ ''Hash_1234'' @ '', excluding column '' @ ''Gender'') \<and>
        fst (SolrClient_index_data sample_env \<lparr>base_url = SOLR_URL\<rparr> ''Hash_1234'' ''Gender''
          ''employee_data.csv'' []) = fst (indexData sample_env ''Hash_1234'' ''Gender'' [])"
    using refactor_agrees_with_baseline [OF b, where env = sample_env and t = "[]" and c = "''Hash_1234''"
        and rows = sample_csv and x = "''Gender''"] o a
    by blast
  then have c6: "fst (SolrClient_index_data sample_env \<lparr>base_url = SOLR_URL\<rparr> ''Hash_1234'' ''Gender''
          ''employee_data.csv'' []) = Ret ''Data indexed into Hash_1234, excluding column Gender''"
    by simp
  from c1 c2 c3 c4 c5 c6 show ?thesis by blast
qed

subsection \<open>Failures of indexing\<close>

text \<open>
  C2. Index data is to return a failure string when the server rejects the batch. The
  baseline \<^verbatim>\<open>indexData\<close> catches \<^verbatim>\<open>FileNotFoundError\<close> only: with the CSV file in
  place and a server that rejects the batch, the \<^verbatim>\<open>SolrError\<close> of \<^verbatim>\<open>solr.add\<close>
  leaves the function (the refactored method returns a failure string there, see
  \<open>index_data_rejected\<close>).
\<close>

theorem indexData_raises_on_rejected_batch:
  "indexData rejecting_env ''Hash_YourName'' ''Department'' [] =
     (Raise (SolrError ''Solr responded with an error (HTTP 400)''),
      [FileOpen ''employee_data.csv'',
       SolrAdd ''http://localhost:8983/solr/Hash_YourName/''
         [[(Some ''Employee ID'', VStr ''E02002''), (Some ''Gender'', VStr ''Male'')],
          [(Some ''Employee ID'', VStr ''E02003''), (Some ''Gender'', VStr ''Female'')]],
       FileClose ''employee_data.csv''])"
  by code_simp

subsection \<open>Exceptions that leave the operations\<close>

text \<open>
  C3, as stated: no operation ever propagates an exception. It fails for core exists:
  the handler catches \<^verbatim>\<open>RequestException\<close> only, and a status 200 answer whose JSON
  object has no \<^verbatim>\<open>status\<close> member raises \<^verbatim>\<open>KeyError\<close> to the caller.
\<close>

theorem check_core_exists_propagates_KeyError:
  "check_core_exists empty_json_env ''Hash_YourName'' [] =
     (Raise (KeyError ''status''),
      [HttpGet \<lparr>req_url = ''http://localhost:8983/solr/admin/cores?action=STATUS&core=Hash_YourName&wt=json'',
                req_params = []\<rparr>])"
  by code_simp

text \<open>What the three HTTP operations return, case by case.\<close>

lemma check_connection_on_response:
  "http_get env (requests_of t) (connection_request (base_url self)) = Ret r \<Longrightarrow>
   fst (SolrClient_check_connection env self t) = Ret (raise_for_status r = Ret ())"
  by (simp add: SolrClient_check_connection_def comp_defs connection_request_def
      raise_for_status_def)

lemma check_connection_on_exception:
  "http_get env (requests_of t) (connection_request (base_url self)) = Raise (RequestException m a) \<Longrightarrow>
   a \<noteq> AttrNone \<Longrightarrow> fst (SolrClient_check_connection env self t) = Ret False"
  by (cases a) (simp_all add: SolrClient_check_connection_def comp_defs connection_request_def)

lemma check_core_exists_on_error_status:
  "http_get env (requests_of t) (status_request (base_url self) c) = Ret r \<Longrightarrow>
   raise_for_status r \<noteq> Ret () \<Longrightarrow>
   SolrClient_check_core_exists env self c t =
     (Ret False, t @ [HttpGet (status_request (base_url self) c)])"
  by (simp add: SolrClient_check_core_exists_def comp_defs status_request_def
      raise_for_status_def split: if_splits)

lemma check_core_exists_on_exception:
  "http_get env (requests_of t) (status_request (base_url self) c) = Raise (RequestException m a) \<Longrightarrow>
   a \<noteq> AttrNone \<Longrightarrow>
   SolrClient_check_core_exists env self c t =
     (Ret False, t @ [HttpGet (status_request (base_url self) c)])"
  by (cases a) (simp_all add: SolrClient_check_core_exists_def comp_defs status_request_def)

lemma check_core_exists_on_status_object:
  "http_get env (requests_of t) (status_request (base_url self) c) = Ret r \<Longrightarrow>
   raise_for_status r = Ret () \<Longrightarrow> resp_json r = Ret (JDict kvs) \<Longrightarrow>
   map_of kvs ''status'' = Some (JDict cores) \<Longrightarrow>
   SolrClient_check_core_exists env self c t =
     (Ret (c \<in> set (map fst cores)), t @ [HttpGet (status_request (base_url self) c)])"
  by (simp add: SolrClient_check_core_exists_def comp_defs status_request_def)

lemma check_core_exists_on_missing_status:
  "http_get env (requests_of t) (status_request (base_url self) c) = Ret r \<Longrightarrow>
   raise_for_status r = Ret () \<Longrightarrow> resp_json r = Ret j \<Longrightarrow>
   py_getitem j ''status'' = Raise e \<Longrightarrow>
   SolrClient_check_core_exists env self c t =
     (Raise e, t @ [HttpGet (status_request (base_url self) c)])"
proof -
  assume g: "http_get env (requests_of t) (status_request (base_url self) c) = Ret r"
    and s: "raise_for_status r = Ret ()" and j: "resp_json r = Ret j"
    and k: "py_getitem j ''status'' = Raise e"
  from k have "\<not> is_RequestException e"
    by (cases j) (auto split: option.splits)
  with g s j k show ?thesis
    by (simp add: SolrClient_check_core_exists_def comp_defs status_request_def)
qed

lemma create_core_when_exists:
  "SolrClient_check_core_exists env self c t = (Ret True, t1) \<Longrightarrow>
   SolrClient_create_core env self c t = (Ret (''Core '' @ c @ '' already exists.''), t1)"
  by (simp add: SolrClient_create_core_def bind_c_def ret_def)

lemma create_core_on_error_status:
  "SolrClient_check_core_exists env self c t = (Ret False, t1) \<Longrightarrow>
   http_get env (requests_of t1) (create_request (base_url self) c) = Ret r \<Longrightarrow>
   raise_for_status r \<noteq> Ret () \<Longrightarrow>
   fst (SolrClient_create_core env self c t) =
     Ret (''Failed to create core '' @ c @ ''. Error: '' @ resp_error_msg r)"
  by (simp add: SolrClient_create_core_def comp_defs create_request_def
      raise_for_status_def split: if_splits)

lemma create_core_on_exception:
  "SolrClient_check_core_exists env self c t = (Ret False, t1) \<Longrightarrow>
   http_get env (requests_of t1) (create_request (base_url self) c) = Raise (RequestException m a) \<Longrightarrow>
   a \<noteq> AttrNone \<Longrightarrow>
   fst (SolrClient_create_core env self c t) =
     Ret (''Failed to create core '' @ c @ ''. Error: '' @ m)"
  by (cases a) (simp_all add: SolrClient_create_core_def comp_defs create_request_def)

lemma create_core_on_answer:
  "SolrClient_check_core_exists env self c t = (Ret False, t1) \<Longrightarrow>
   http_get env (requests_of t1) (create_request (base_url self) c) = Ret r \<Longrightarrow>
   raise_for_status r = Ret () \<Longrightarrow> resp_json r = Ret j \<Longrightarrow>
   py_contains ''success'' j = Ret b \<Longrightarrow>
   fst (SolrClient_create_core env self c t) =
     Ret (if b then ''Core '' @ c @ '' created successfully.''
          else ''Failed to create core '' @ c @ ''. Response: '' @ resp_text r)"
  by (simp add: SolrClient_create_core_def comp_defs create_request_def)

text \<open>
  C3, amended. The operations guarded by a handler for every \<^verbatim>\<open>Exception\<close> (search
  by column, get count, delete by id and get facet counts in both scripts, and the
  refactored index data) never propagate an exception, for every input and server
  behaviour: they return the success type or a failure string (the refactored search
  and facet methods a list and a mapping). Of the three HTTP operations, in both
  scripts: check connection returns a truth value for every response (true unless the
  status is an error status) and false for every \<^verbatim>\<open>RequestException\<close> that carries a
  response or has no such attribute. Core exists returns false for an error status and
  for such an exception, and for a success answer whose JSON object has an object under
  \<^verbatim>\<open>status\<close> it tells whether the core is among its members; an exception raised by
  reading \<^verbatim>\<open>status\<close> from the answer reaches the caller. Create core returns the
  "already exists" string when core exists returns true; when it returns false, create
  core returns the failure string with the error text for an error status and for such
  an exception, and the "created" string or the failure string with the response text
  for a success answer whose JSON can be searched for \<^verbatim>\<open>success\<close>. None of the three
  ever propagates a \<^verbatim>\<open>RequestException\<close>.
\<close>

theorem guarded_operations_return:
  "((\<exists>ds. fst (searchByColumn env c f v t) = Ret (PList ds)) \<or>
    (\<exists>m. fst (searchByColumn env c f v t) = Ret (PStr (''Failed to search: '' @ m)))) \<and>
   ((\<exists>n. fst (getEmpCount env c t) = Ret (PInt n)) \<or>
    (\<exists>m. fst (getEmpCount env c t) = Ret (PStr (''Failed to get employee count: '' @ m)))) \<and>
   (\<exists>s. fst (delEmpById env c i t) = Ret s) \<and>
   ((\<exists>d. fst (getDepFacet env c t) = Ret (PDict d)) \<or>
    (\<exists>m. fst (getDepFacet env c t) = Ret (PStr (''Failed to get department facet: '' @ m)))) \<and>
   (\<exists>s. fst (SolrClient_index_data env self c x p t) = Ret s) \<and>
   (\<exists>ds. fst (SolrClient_search_by_column env self c f v t) = Ret ds) \<and>
   ((\<exists>n. fst (SolrClient_get_employee_count env self c t) = Ret (PInt n)) \<or>
    (\<exists>m. fst (SolrClient_get_employee_count env self c t) =
           Ret (PStr (''Failed to get employee count: '' @ m)))) \<and>
   (\<exists>s. fst (SolrClient_delete_employee_by_id env self c i t) = Ret s) \<and>
   (\<exists>d. fst (SolrClient_get_department_facet env self c t) = Ret d) \<and>
   (\<forall>e. fst (check_solr_connection env t) = Raise e \<longrightarrow> \<not> is_RequestException e) \<and>
   (\<forall>e. fst (check_core_exists env c t) = Raise e \<longrightarrow> \<not> is_RequestException e) \<and>
   (\<forall>e. fst (createCore env c t) = Raise e \<longrightarrow> \<not> is_RequestException e) \<and>
   (\<forall>e. fst (SolrClient_check_connection env self t) = Raise e \<longrightarrow> \<not> is_RequestException e) \<and>
   (\<forall>e. fst (SolrClient_check_core_exists env self c t) = Raise e \<longrightarrow> \<not> is_RequestException e) \<and>
   (\<forall>e. fst (SolrClient_create_core env self c t) = Raise e \<longrightarrow> \<not> is_RequestException e) \<and>
   (\<forall>r. http_get env (requests_of t) (connection_request (base_url self)) = Ret r \<longrightarrow>
      fst (SolrClient_check_connection env self t) = Ret (raise_for_status r = Ret ())) \<and>
   (\<forall>m a. http_get env (requests_of t) (connection_request (base_url self)) =
             Raise (RequestException m a) \<and> a \<noteq> AttrNone \<longrightarrow>
      fst (SolrClient_check_connection env self t) = Ret False) \<and>
   (\<forall>r. http_get env (requests_of t) (status_request (base_url self) c) = Ret r \<and>
        raise_for_status r \<noteq> Ret () \<longrightarrow>
      fst (SolrClient_check_core_exists env self c t) = Ret False) \<and>
   (\<forall>m a. http_get env (requests_of t) (status_request (base_url self) c) =
             Raise (RequestException m a) \<and> a \<noteq> AttrNone \<longrightarrow>
      fst (SolrClient_check_core_exists env self c t) = Ret False) \<and>
   (\<forall>r kvs cores. http_get env (requests_of t) (status_request (base_url self) c) = Ret r \<and>
        raise_for_status r = Ret () \<and> resp_json r = Ret (JDict kvs) \<and>
        map_of kvs ''status'' = Some (JDict cores) \<longrightarrow>
      fst (SolrClient_check_core_exists env self c t) = Ret (c \<in> set (map fst cores))) \<and>
   (\<forall>r j e. http_get env (requests_of t) (status_request (base_url self) c) = Ret r \<and>
        raise_for_status r = Ret () \<and> resp_json r = Ret j \<and>
        py_getitem j ''status'' = Raise e \<longrightarrow>
      fst (SolrClient_check_core_exists env self c t) = Raise e) \<and>
   (\<forall>t1. SolrClient_check_core_exists env self c t = (Ret True, t1) \<longrightarrow>
      SolrClient_create_core env self c t = (Ret (''Core '' @ c @ '' already exists.''), t1)) \<and>
   (\<forall>t1 r. SolrClient_check_core_exists env self c t = (Ret False, t1) \<and>
        http_get env (requests_of t1) (create_request (base_url self) c) = Ret r \<and>
        raise_for_status r \<noteq> Ret () \<longrightarrow>
      fst (SolrClient_create_core env self c t) =
        Ret (''Failed to create core '' @ c @ ''. Error: '' @ resp_error_msg r)) \<and>
   (\<forall>t1 m a. SolrClient_check_core_exists env self c t = (Ret False, t1) \<and>
        http_get env (requests_of t1) (create_request (base_url self) c) =
          Raise (RequestException m a) \<and> a \<noteq> AttrNone \<longrightarrow>
      fst (SolrClient_create_core env self c t) =
        Ret (''Failed to create core '' @ c @ ''. Error: '' @ m)) \<and>
   (\<forall>t1 r j b. SolrClient_check_core_exists env self c t = (Ret False, t1) \<and>
        http_get env (requests_of t1) (create_request (base_url self) c) = Ret r \<and>
        raise_for_status r = Ret () \<and> resp_json r = Ret j \<and>
        py_contains ''success'' j = Ret b \<longrightarrow>
      fst (SolrClient_create_core env self c t) =
        Ret (if b then ''Core '' @ c @ '' created successfully.''
             else ''Failed to create core '' @ c @ ''. Response: '' @ resp_text r)) \<and>
   (base_url self = SOLR_URL \<longrightarrow>
      check_solr_connection env t = SolrClient_check_connection env self t \<and>
      check_core_exists env c t = SolrClient_check_core_exists env self c t \<and>
      createCore env c t = SolrClient_create_core env self c t)"
proof -
  have r1: "\<forall>e. fst (check_solr_connection env t) = Raise e \<longrightarrow> \<not> is_RequestException e"
    using check_solr_connection_raises [of env t] by (metis prod.collapse)
  have r2: "\<forall>e. fst (check_core_exists env c t) = Raise e \<longrightarrow> \<not> is_RequestException e"
    using check_core_exists_raises [of env c t] by (metis prod.collapse)
  have r3: "\<forall>e. fst (createCore env c t) = Raise e \<longrightarrow> \<not> is_RequestException e"
    using createCore_raises [of env c t] by (metis prod.collapse)
  have r4: "\<forall>e. fst (SolrClient_check_connection env self t) = Raise e \<longrightarrow> \<not> is_RequestException e"
    using check_connection_raises [of env self t] by (metis prod.collapse)
  have r5: "\<forall>e. fst (SolrClient_check_core_exists env self c t) = Raise e \<longrightarrow> \<not> is_RequestException e"
    using client_check_core_exists_raises [of env self c t] by (metis prod.collapse)
  have r6: "\<forall>e. fst (SolrClient_create_core env self c t) = Raise e \<longrightarrow> \<not> is_RequestException e"
    using create_core_raises [of env self c t] by (metis prod.collapse)
  have guarded:
    "((\<exists>ds. fst (searchByColumn env c f v t) = Ret (PList ds)) \<or>
      (\<exists>m. fst (searchByColumn env c f v t) = Ret (PStr (''Failed to search: '' @ m)))) \<and>
     ((\<exists>n. fst (getEmpCount env c t) = Ret (PInt n)) \<or>
      (\<exists>m. fst (getEmpCount env c t) = Ret (PStr (''Failed to get employee count: '' @ m)))) \<and>
     (\<exists>s. fst (delEmpById env c i t) = Ret s) \<and>
     ((\<exists>d. fst (getDepFacet env c t) = Ret (PDict d)) \<or>
      (\<exists>m. fst (getDepFacet env c t) = Ret (PStr (''Failed to get department facet: '' @ m)))) \<and>
     (\<exists>s. fst (SolrClient_index_data env self c x p t) = Ret s) \<and>
     (\<exists>ds. fst (SolrClient_search_by_column env self c f v t) = Ret ds) \<and>
     ((\<exists>n. fst (SolrClient_get_employee_count env self c t) = Ret (PInt n)) \<or>
      (\<exists>m. fst (SolrClient_get_employee_count env self c t) =
             Ret (PStr (''Failed to get employee count: '' @ m)))) \<and>
     (\<exists>s. fst (SolrClient_delete_employee_by_id env self c i t) = Ret s) \<and>
     (\<exists>d. fst (SolrClient_get_department_facet env self c t) = Ret d)"
    using searchByColumn_returns [of env c f v t] getEmpCount_returns [of env c t]
      delEmpById_returns [of env c i t] getDepFacet_returns [of env c t]
      index_data_returns [of env self c x p t] search_by_column_returns [of env self c f v t]
      get_employee_count_returns [of env self c t]
      delete_employee_by_id_returns [of env self c i t]
      get_department_facet_returns [of env self c t]
    by blast
  have conn: "(\<forall>r. http_get env (requests_of t) (connection_request (base_url self)) = Ret r \<longrightarrow>
      fst (SolrClient_check_connection env self t) = Ret (raise_for_status r = Ret ())) \<and>
   (\<forall>m a. http_get env (requests_of t) (connection_request (base_url self)) =
             Raise (RequestException m a) \<and> a \<noteq> AttrNone \<longrightarrow>
      fst (SolrClient_check_connection env self t) = Ret False)"
    using check_connection_on_response [of env t self] check_connection_on_exception [of env t self]
    by blast
  have exists: "(\<forall>r. http_get env (requests_of t) (status_request (base_url self) c) = Ret r \<and>
        raise_for_status r \<noteq> Ret () \<longrightarrow>
      fst (SolrClient_check_core_exists env self c t) = Ret False) \<and>
   (\<forall>m a. http_get env (requests_of t) (status_request (base_url self) c) =
             Raise (RequestException m a) \<and> a \<noteq> AttrNone \<longrightarrow>
      fst (SolrClient_check_core_exists env self c t) = Ret False) \<and>
   (\<forall>r kvs cores. http_get env (requests_of t) (status_request (base_url self) c) = Ret r \<and>
        raise_for_status r = Ret () \<and> resp_json r = Ret (JDict kvs) \<and>
        map_of kvs ''status'' = Some (JDict cores) \<longrightarrow>
      fst (SolrClient_check_core_exists env self c t) = Ret (c \<in> set (map fst cores))) \<and>
   (\<forall>r j e. http_get env (requests_of t) (status_request (base_url self) c) = Ret r \<and>
        raise_for_status r = Ret () \<and> resp_json r = Ret j \<and>
        py_getitem j ''status'' = Raise e \<longrightarrow>
      fst (SolrClient_check_core_exists env self c t) = Raise e)"
    using check_core_exists_on_error_status [of env t self c]
      check_core_exists_on_exception [of env t self c]
      check_core_exists_on_status_object [of env t self c]
      check_core_exists_on_missing_status [of env t self c]
    by (simp (no_asm_simp))
  have create: "(\<forall>t1. SolrClient_check_core_exists env self c t = (Ret True, t1) \<longrightarrow>
      SolrClient_create_core env self c t = (Ret (''Core '' @ c @ '' already exists.''), t1)) \<and>
   (\<forall>t1 r. SolrClient_check_core_exists env self c t = (Ret False, t1) \<and>
        http_get env (requests_of t1) (create_request (base_url self) c) = Ret r \<and>
        raise_for_status r \<noteq> Ret () \<longrightarrow>
      fst (SolrClient_create_core env self c t) =
        Ret (''Failed to create core '' @ c @ ''. Error: '' @ resp_error_msg r)) \<and>
   (\<forall>t1 m a. SolrClient_check_core_exists env self c t = (Ret False, t1) \<and>
        http_get env (requests_of t1) (create_request (base_url self) c) =
          Raise (RequestException m a) \<and> a \<noteq> AttrNone \<longrightarrow>
      fst (SolrClient_create_core env self c t) =
        Ret (''Failed to create core '' @ c @ ''. Error: '' @ m)) \<and>
   (\<forall>t1 r j b. SolrClient_check_core_exists env self c t = (Ret False, t1) \<and>
        http_get env (requests_of t1) (create_request (base_url self) c) = Ret r \<and>
        raise_for_status r = Ret () \<and> resp_json r = Ret j \<and>
        py_contains ''success'' j = Ret b \<longrightarrow>
      fst (SolrClient_create_core env self c t) =
        Ret (if b then ''Core '' @ c @ '' created successfully.''
             else ''Failed to create core '' @ c @ ''. Response: '' @ resp_text r))"
    using create_core_when_exists [of env self c t] create_core_on_error_status [of env self c t]
      create_core_on_exception [of env self c t] create_core_on_answer [of env self c t]
    by (intro conjI allI impI) blast+
  have same: "base_url self = SOLR_URL \<longrightarrow>
      check_solr_connection env t = SolrClient_check_connection env self t \<and>
      check_core_exists env c t = SolrClient_check_core_exists env self c t \<and>
      createCore env c t = SolrClient_create_core env self c t"
    by (simp add: check_connection_same check_core_exists_same create_core_same)
  from guarded r1 r2 r3 r4 r5 r6 conn exists create same show ?thesis
    by (intro conjI) (elim conjE, assumption)+
qed
theorem guarded_operations_return_witness:
  "fst (SolrClient_check_connection sample_env \<lparr>base_url = SOLR_URL\<rparr> []) = Ret True \<and>
   fst (check_solr_connection http_error_env []) = Ret False \<and>
   fst (SolrClient_check_connection redirecting_env \<lparr>base_url = SOLR_URL\<rparr> []) = Ret False \<and>
   fst (SolrClient_check_core_exists http_error_env \<lparr>base_url = SOLR_URL\<rparr> ''Hash_1234'' []) = Ret False \<and>
   fst (SolrClient_check_core_exists redirecting_env \<lparr>base_url = SOLR_URL\<rparr> ''Hash_1234'' []) = Ret False \<and>
   fst (SolrClient_check_core_exists sample_env \<lparr>base_url = SOLR_URL\<rparr> ''Hash_1234'' []) = Ret False \<and>
   fst (SolrClient_check_core_exists empty_json_env \<lparr>base_url = SOLR_URL\<rparr> ''Hash_1234'' []) =
     Raise (KeyError ''status'') \<and>
   fst (SolrClient_create_core solr_like_env \<lparr>base_url = SOLR_URL\<rparr> ''Hash_1234'' []) =
     Ret ''Core Hash_1234 already exists.'' \<and>
   fst (SolrClient_create_core http_error_env \<lparr>base_url = SOLR_URL\<rparr> ''Hash_1234'' []) =
     Ret ''Failed to create core Hash_1234. Error: 500 Server Error'' \<and>
   fst (SolrClient_create_core redirecting_env \<lparr>base_url = SOLR_URL\<rparr> ''Hash_1234'' []) =
     Ret ''Failed to create core Hash_1234. Error: Exceeded 30 redirects.'' \<and>
   fst (SolrClient_create_core sample_env \<lparr>base_url = SOLR_URL\<rparr> ''Hash_1234'' []) =
     Ret ''Core Hash_1234 created successfully.'' \<and>
   fst (createCore empty_json_env ''Hash_1234'' []) = Raise (KeyError ''status'') \<and>
   \<not> is_RequestException (KeyError ''status'')"
proof -
  let ?cl = "\<lparr>base_url = SOLR_URL\<rparr>"
  let ?c = "''Hash_1234''"
  let ?st = "status_request (base_url ?cl) ?c"
  let ?ok = "\<lparr>resp_status_code = 200, resp_text = ''status'',
              resp_json = Ret (JDict [(''status'', JDict [])]), resp_error_msg = []\<rparr>"
  let ?created = "\<lparr>resp_status_code = 200, resp_text = ''created'',
              resp_json = Ret (JDict [(''success'', JDict [])]), resp_error_msg = []\<rparr>"
  let ?err = "\<lparr>resp_status_code = 500, resp_text = ''Internal Server Error'',
              resp_json = Ret JNull, resp_error_msg = ''500 Server Error''\<rparr>"
  let ?empty = "\<lparr>resp_status_code = 200, resp_text = ''{}'',
              resp_json = Ret (JDict []), resp_error_msg = []\<rparr>"
  note sample = guarded_operations_return [where env = sample_env and self = ?cl and c = ?c and t = "[]"
      and f = "''Department''" and v = "''IT''" and i = "''E02003''" and x = "''Gender''"
      and p = "''employee_data.csv''"]
  note failing = guarded_operations_return [where env = http_error_env and self = ?cl and c = ?c and t = "[]"
      and f = "''Department''" and v = "''IT''" and i = "''E02003''" and x = "''Gender''"
      and p = "''employee_data.csv''"]
  note looping = guarded_operations_return [where env = redirecting_env and self = ?cl and c = ?c and t = "[]"
      and f = "''Department''" and v = "''IT''" and i = "''E02003''" and x = "''Gender''"
      and p = "''employee_data.csv''"]
  note empty = guarded_operations_return [where env = empty_json_env and self = ?cl and c = ?c and t = "[]"
      and f = "''Department''" and v = "''IT''" and i = "''E02003''" and x = "''Gender''"
      and p = "''employee_data.csv''"]
  note solr = guarded_operations_return [where env = solr_like_env and self = ?cl and c = ?c and t = "[]"
      and f = "''Department''" and v = "''IT''" and i = "''E02003''" and x = "''Gender''"
      and p = "''employee_data.csv''"]
  have ok_status: "raise_for_status ?ok = Ret ()" "raise_for_status ?created = Ret ()"
    "raise_for_status ?empty = Ret ()" "raise_for_status ?err \<noteq> Ret ()"
    by (simp_all add: raise_for_status_def)
  have w1: "fst (SolrClient_check_connection sample_env ?cl []) = Ret True"
  proof -
    have "http_get sample_env (requests_of []) (connection_request (base_url ?cl)) = Ret ?ok"
      by (simp add: sample_env_def sample_server_def connection_request_def cores_created_def
          List.map_filter_def)
    with sample ok_status(1) show ?thesis by simp
  qed
  have w2: "fst (check_solr_connection http_error_env []) = Ret False"
  proof -
    have "http_get http_error_env (requests_of []) (connection_request (base_url ?cl)) = Ret ?err"
      by (simp add: http_error_env_def)
    with failing ok_status(4) have "fst (SolrClient_check_connection http_error_env ?cl []) = Ret False"
      by simp
    moreover from failing have "check_solr_connection http_error_env [] =
        SolrClient_check_connection http_error_env ?cl []"
      by simp
    ultimately show ?thesis by simp
  qed
  have w3: "fst (SolrClient_check_connection redirecting_env ?cl []) = Ret False"
  proof -
    have "http_get redirecting_env (requests_of []) (connection_request (base_url ?cl)) =
        Raise (RequestException ''Exceeded 30 redirects.'' (AttrResp 302 []))"
      by (simp add: redirecting_env_def)
    moreover have "AttrResp 302 [] \<noteq> AttrNone" by simp
    ultimately show ?thesis using looping by simp
  qed
  have w4: "fst (SolrClient_check_core_exists http_error_env ?cl ?c []) = Ret False"
  proof -
    have "http_get http_error_env (requests_of []) ?st = Ret ?err"
      by (simp add: http_error_env_def)
    with failing ok_status(4) show ?thesis by simp
  qed
  have w5: "fst (SolrClient_check_core_exists redirecting_env ?cl ?c []) = Ret False"
  proof -
    have "http_get redirecting_env (requests_of []) ?st =
        Raise (RequestException ''Exceeded 30 redirects.'' (AttrResp 302 []))"
      by (simp add: redirecting_env_def)
    moreover have "AttrResp 302 [] \<noteq> AttrNone" by simp
    ultimately show ?thesis using looping by simp
  qed
  have w6: "fst (SolrClient_check_core_exists sample_env ?cl ?c []) = Ret False"
  proof -
    have "http_get sample_env (requests_of []) ?st = Ret ?ok"
      by (simp add: sample_env_def sample_server_def status_request_def cores_created_def
          List.map_filter_def)
    moreover have "resp_json ?ok = Ret (JDict [(''status'', JDict [])])"
      and "map_of [(''status'', JDict [])] ''status'' = Some (JDict [])"
      by simp_all
    ultimately have "fst (SolrClient_check_core_exists sample_env ?cl ?c []) =
        Ret (?c \<in> set (map fst []))"
      using sample ok_status(1) by simp
    then show ?thesis by simp
  qed
  have w7: "fst (SolrClient_check_core_exists empty_json_env ?cl ?c []) = Raise (KeyError ''status'')"
  proof -
    have "http_get empty_json_env (requests_of []) ?st = Ret ?empty"
      by (simp add: empty_json_env_def)
    moreover have "resp_json ?empty = Ret (JDict [])"
      and "py_getitem (JDict []) ''status'' = Raise (KeyError ''status'')"
      by simp_all
    ultimately show ?thesis using empty ok_status(3) by simp
  qed
  have w8: "fst (SolrClient_create_core solr_like_env ?cl ?c []) = Ret ''Core Hash_1234 already exists.''"
  proof -
    have "SolrClient_check_core_exists solr_like_env ?cl ?c [] = (Ret True, [HttpGet ?st])"
      by code_simp
    with solr have "SolrClient_create_core solr_like_env ?cl ?c [] =
        (Ret (''Core '' @ ?c @ '' already exists.''), [HttpGet ?st])"
      by simp
    then show ?thesis by simp
  qed
  have w9: "fst (SolrClient_create_core http_error_env ?cl ?c []) =
      Ret ''Failed to create core Hash_1234. Error: 500 Server Error''"
  proof -
    have "SolrClient_check_core_exists http_error_env ?cl ?c [] = (Ret False, [HttpGet ?st])"
      by code_simp
    moreover have "http_get http_error_env (requests_of [HttpGet ?st])
        (create_request (base_url ?cl) ?c) = Ret ?err"
      by (simp add: http_error_env_def)
    ultimately have "fst (SolrClient_create_core http_error_env ?cl ?c []) =
        Ret (''Failed to create core '' @ ?c @ ''. Error: '' @ resp_error_msg ?err)"
      using failing ok_status(4) by simp
    then show ?thesis by simp
  qed
  have w10: "fst (SolrClient_create_core redirecting_env ?cl ?c []) =
      Ret ''Failed to create core Hash_1234. Error: Exceeded 30 redirects.''"
  proof -
    have "SolrClient_check_core_exists redirecting_env ?cl ?c [] = (Ret False, [HttpGet ?st])"
      by code_simp
    moreover have "http_get redirecting_env (requests_of [HttpGet ?st])
        (create_request (base_url ?cl) ?c) =
        Raise (RequestException ''Exceeded 30 redirects.'' (AttrResp 302 []))"
      by (simp add: redirecting_env_def)
    moreover have "AttrResp 302 [] \<noteq> AttrNone" by simp
    ultimately have "fst (SolrClient_create_core redirecting_env ?cl ?c []) =
        Ret (''Failed to create core '' @ ?c @ ''. Error: '' @ ''Exceeded 30 redirects.'')"
      using looping by simp
    then show ?thesis by simp
  qed
  have w11: "fst (SolrClient_create_core sample_env ?cl ?c []) =
      Ret ''Core Hash_1234 created successfully.''"
  proof -
    have "SolrClient_check_core_exists sample_env ?cl ?c [] = (Ret False, [HttpGet ?st])"
      by code_simp
    moreover have "http_get sample_env (requests_of [HttpGet ?st])
        (create_request (base_url ?cl) ?c) = Ret ?created"
      by (simp add: sample_env_def sample_server_def create_request_def)
    moreover have "resp_json ?created = Ret (JDict [(''success'', JDict [])])"
      and "py_contains ''success'' (JDict [(''success'', JDict [])]) = Ret True"
      by simp_all
    ultimately show ?thesis
      using sample ok_status(2) by auto
  qed
  have w12: "fst (createCore empty_json_env ?c []) = Raise (KeyError ''status'')"
    by code_simp
  with empty have w13: "\<not> is_RequestException (KeyError ''status'')"
    by simp
  from w1 w2 w3 w4 w5 w6 w7 w8 w9 w10 w11 w12 w13 show ?thesis
    by (intro conjI)
qed

subsection \<open>The file and the add request\<close>

text \<open>
  C8, as stated: the add request is never issued while the CSV file is open. It fails
  for the baseline \<^verbatim>\<open>indexData\<close>, whose \<^verbatim>\<open>solr.add\<close> call stands inside the
  \<^verbatim>\<open>with\<close> block.
\<close>

theorem indexData_adds_while_file_open:
  "snd (indexData sample_env ''Hash_YourName'' ''Department'' []) =
     [FileOpen ''employee_data.csv'',
      SolrAdd ''http://localhost:8983/solr/Hash_YourName/''
        [[(Some ''Employee ID'', VStr ''E02002''), (Some ''Gender'', VStr ''Male'')],
         [(Some ''Employee ID'', VStr ''E02003''), (Some ''Gender'', VStr ''Female'')]],
      FileClose ''employee_data.csv'']
   \<and> add_while_open 0 (snd (indexData sample_env ''Hash_YourName'' ''Department'' []))"
  by code_simp

text \<open>
  C8, amended. In the refactored \<^verbatim>\<open>index_data\<close> the CSV file is closed after all
  rows have been read and before the add request is issued; the add request is never
  issued while the file is open, and none is issued when the file cannot be opened. In
  the baseline \<^verbatim>\<open>indexData\<close> the add request is issued between the opening and the
  closing of the file.
\<close>

theorem file_closed_before_add_in_refactor:
  "(open_file env p = Ret rows \<longrightarrow>
      snd (SolrClient_index_data env self c x p t) =
        t @ [FileOpen p, FileClose p,
             SolrAdd (base_url self @ ''/'' @ c @ ''/'') (documents_of x rows)]) \<and>
   (open_file env p = Raise e \<longrightarrow> snd (SolrClient_index_data env self c x p t) = t) \<and>
   \<not> add_while_open 0 (snd (SolrClient_index_data env self c x p [])) \<and>
   (open_file env ''employee_data.csv'' = Ret rows' \<longrightarrow>
      snd (indexData env c x t) =
        t @ [FileOpen ''employee_data.csv'',
             SolrAdd (SOLR_URL @ ''/'' @ c @ ''/'') (documents_of x rows'),
             FileClose ''employee_data.csv''])"
  using index_data_trace [of env p rows self c x t] index_data_no_file [of env p e self c x t]
    index_data_closed_before_add [of env self c x p] indexData_trace [of env rows' c x t]
  by blast

theorem file_closed_before_add_in_refactor_witness:
  "snd (SolrClient_index_data sample_env \<lparr>base_url = SOLR_URL\<rparr> ''Hash_1234'' ''Gender''
          ''employee_data.csv'' []) =
     [FileOpen ''employee_data.csv'', FileClose ''employee_data.csv'',
      SolrAdd (SOLR_URL @ ''/'' @ ''Hash_1234'' @ ''/'') (documents_of ''Gender'' sample_csv)] \<and>
   snd (SolrClient_index_data sample_env \<lparr>base_url = SOLR_URL\<rparr> ''Hash_1234'' ''Gender''
          ''missing.csv'' []) = [] \<and>
   snd (indexData sample_env ''Hash_1234'' ''Gender'' []) =
     [FileOpen ''employee_data.csv'',
      SolrAdd (SOLR_URL @ ''/'' @ ''Hash_1234'' @ ''/'') (documents_of ''Gender'' sample_csv),
      FileClose ''employee_data.csv'']"
proof -
  have o: "open_file sample_env ''employee_data.csv'' = Ret sample_csv"
    by (simp add: sample_env_def)
  have n: "open_file sample_env ''missing.csv'' = Raise (FileNotFoundError ''No such file or directory'')"
    by (simp add: sample_env_def)
  show ?thesis
    using file_closed_before_add_in_refactor [where env = sample_env
        and p = "''employee_data.csv''" and rows = sample_csv and rows' = sample_csv
        and self = "\<lparr>base_url = SOLR_URL\<rparr>" and c = "''Hash_1234''" and x = "''Gender''" and t = "[]"]
      file_closed_before_add_in_refactor [where env = sample_env
        and p = "''missing.csv''" and e = "FileNotFoundError ''No such file or directory''"
        and self = "\<lparr>base_url = SOLR_URL\<rparr>" and c = "''Hash_1234''" and x = "''Gender''" and t = "[]"]
      o n
    by simp
qed

subsection \<open>A server that cannot be reached\<close>

text \<open>
  C10. Core exists is to return false when the status request fails with a transport
  error. For a connection error the handler's \<^verbatim>\<open>hasattr(e, 'response')\<close> is true and
  \<^verbatim>\<open>e.response\<close> is \<^verbatim>\<open>None\<close>: reading its \<^verbatim>\<open>status_code\<close> raises
  \<^verbatim>\<open>AttributeError\<close>, which leaves core exists and create core; no CREATE request is
  sent.
\<close>

theorem check_core_exists_raises_when_unreachable:
  "check_core_exists unreachable_env ''Hash_YourName'' [] =
     (Raise (AttributeError ''NoneType object has no attribute status_code''),
      [HttpGet \<lparr>req_url = ''http://localhost:8983/solr/admin/cores?action=STATUS&core=Hash_YourName&wt=json'',
                req_params = []\<rparr>])
   \<and> createCore unreachable_env ''Hash_YourName'' [] =
     (Raise (AttributeError ''NoneType object has no attribute status_code''),
      [HttpGet \<lparr>req_url = ''http://localhost:8983/solr/admin/cores?action=STATUS&core=Hash_YourName&wt=json'',
                req_params = []\<rparr>])"
  by code_simp

text \<open>
  With a response in the exception (an HTTP error status) core exists returns false and
  create core goes on to send the CREATE request.
\<close>

lemma check_core_exists_False_on_http_error:
  assumes "http_get env (requests_of t) (status_request SOLR_URL c) =
             Raise (RequestException m (AttrResp code body))"
  shows "check_core_exists env c t = (Ret False, t @ [HttpGet (status_request SOLR_URL c)])"
    and "snd (createCore env c t) =
           t @ [HttpGet (status_request SOLR_URL c), HttpGet (create_request SOLR_URL c)]"
  using assms
  by (simp_all add: check_core_exists_def createCore_def comp_defs status_request_def
      create_request_def split: res.splits)

subsection \<open>The run of \<^verbatim>\<open>main\<close>\<close>

text \<open>
  C7. A failure of a single operation is not to stop the run. In the baseline, with the
  server reachable, the cores created and the CSV file in place, a server that rejects
  the batch makes \<^verbatim>\<open>indexData\<close> raise (see C2): \<^verbatim>\<open>main\<close> ends there with the
  exception, before the second indexing, the deletion, the searches and the facets.
\<close>

theorem main_stops_on_rejected_batch:
  "main rejecting_env [] =
     (Raise (SolrError ''Solr responded with an error (HTTP 400)''),
      [HttpGet \<lparr>req_url = ''http://localhost:8983/solr/admin/cores?action=STATUS&wt=json'',
                req_params = []\<rparr>,
       HttpGet \<lparr>req_url = ''http://localhost:8983/solr/admin/cores?action=STATUS&core=Hash_YourName&wt=json'',
                req_params = []\<rparr>,
       HttpGet \<lparr>req_url = ''http://localhost:8983/solr/admin/cores'',
                req_params = [(''action'', ''CREATE''), (''name'', ''Hash_YourName''),
                              (''instanceDir'', ''Hash_YourName''), (''configSet'', ''_default'')]\<rparr>,
       HttpGet \<lparr>req_url = ''http://localhost:8983/solr/admin/cores?action=STATUS&core=Hash_1234&wt=json'',
                req_params = []\<rparr>,
       HttpGet \<lparr>req_url = ''http://localhost:8983/solr/admin/cores'',
                req_params = [(''action'', ''CREATE''), (''name'', ''Hash_1234''),
                              (''instanceDir'', ''Hash_1234''), (''configSet'', ''_default'')]\<rparr>,
       SolrSearch ''http://localhost:8983/solr/Hash_YourName/'' ''*:*'' [(''rows'', ''0'')],
       FileOpen ''employee_data.csv'',
       SolrAdd ''http://localhost:8983/solr/Hash_YourName/''
         [[(Some ''Employee ID'', VStr ''E02002''), (Some ''Gender'', VStr ''Male'')],
          [(Some ''Employee ID'', VStr ''E02003''), (Some ''Gender'', VStr ''Female'')]],
       FileClose ''employee_data.csv''])"
  by code_simp

text \<open>
  When nothing listens at the address, the connection check itself raises (see C10)
  and both \<^verbatim>\<open>main\<close> functions end with the exception instead of returning.
\<close>

lemma main_raises_when_unreachable:
  "fst (main unreachable_env []) =
     Raise (AttributeError ''NoneType object has no attribute status_code'')"
  "fst (optimized_main unreachable_env []) =
     Raise (AttributeError ''NoneType object has no attribute status_code'')"
  by code_simp+

text \<open>A connection check that returns false ends \<^verbatim>\<open>main\<close> by its early return.\<close>

lemma main_returns_early:
  "check_solr_connection env t = (Ret False, t') \<Longrightarrow> main env t = (Ret (), t')"
  by (simp add: main_def bind_c_def ret_def)

lemma bind_c_returns:
  assumes "\<And>t. \<exists>x. fst (m t) = Ret x" and "\<And>x t. \<exists>y. fst (f x t) = Ret y"
  shows "\<exists>y. fst (bind_c m f t) = Ret y"
proof -
  from assms(1) obtain x where "fst (m t) = Ret x" by blast
  then obtain t1 where "m t = (Ret x, t1)" by (cases "m t") simp
  with assms(2) [of x t1] show ?thesis by (simp add: bind_c_def)
qed

lemma index_data_to_cores_returns:
  "\<exists>u. fst (index_data_to_cores env client configs p t) = Ret u"
proof (induction configs arbitrary: t)
  case Nil
  show ?case by (simp add: ret_def)
next
  case (Cons cx configs)
  obtain c x where cx: "cx = (c, x)" by (cases cx)
  have "\<exists>u. fst (bind_c (SolrClient_index_data env client c x p)
      (\<lambda>result. index_data_to_cores env client configs p) t) = Ret u"
    by (rule bind_c_returns) (rule index_data_returns, rule Cons.IH)
  with cx show ?case by simp
qed

lemma perform_operations_returns:
  "\<exists>u. fst (perform_operations env client c t) = Ret u"
  unfolding perform_operations_def
proof (intro bind_c_returns)
  show "\<exists>x. fst (SolrClient_delete_employee_by_id env client c
      (getenv env ''EMPLOYEE_ID_TO_DELETE'' ''E02003'') t) = Ret x" for t
    by (rule delete_employee_by_id_returns)
  show "\<exists>x. fst (SolrClient_get_employee_count env client c t) = Ret x" for t
    using get_employee_count_returns [of env client c t] by blast
  show "\<exists>x. fst (SolrClient_search_by_column env client c ''Department''
      (getenv env ''SEARCH_DEPARTMENT'' ''IT'') t) = Ret x" for t
    by (rule search_by_column_returns)
  show "\<exists>x. fst (SolrClient_get_department_facet env client c t) = Ret x" for t
    by (rule get_department_facet_returns)
  show "\<exists>y. fst (ret () t) = Ret y" for t
    by (simp add: ret_def)
qed

lemma perform_all_returns:
  "\<exists>u. fst (perform_all env client core_names t) = Ret u"
proof (induction core_names arbitrary: t)
  case Nil
  show ?case by (simp add: ret_def)
next
  case (Cons c cs)
  have "\<exists>u. fst (bind_c (perform_operations env client c) (\<lambda>u. perform_all env client cs) t) = Ret u"
    by (rule bind_c_returns) (rule perform_operations_returns, rule Cons.IH)
  then show ?case by simp
qed

text \<open>
  Once the connection check has passed and the cores are set up, the refactored
  \<^verbatim>\<open>main\<close> returns, whatever the indexing, deletion, counts, searches and facets do.
\<close>

lemma optimized_main_completes:
  assumes "SolrClient_check_connection env
             \<lparr>base_url = getenv env ''SOLR_URL'' ''http://localhost:8983/solr''\<rparr> t = (Ret True, t0)"
    and "fst (setup_cores env \<lparr>base_url = getenv env ''SOLR_URL'' ''http://localhost:8983/solr''\<rparr>
               (split_on (CHR '','') (getenv env ''CORE_NAMES'' ''Hash_YourName,Hash_1234'')) t0) = Ret ()"
  shows "fst (optimized_main env t) = Ret ()"
proof -
  let ?client = "\<lparr>base_url = getenv env ''SOLR_URL'' ''http://localhost:8983/solr''\<rparr>"
  let ?names = "split_on (CHR '','') (getenv env ''CORE_NAMES'' ''Hash_YourName,Hash_1234'')"
  let ?csv = "getenv env ''CSV_FILE'' ''employee_data.csv''"
  from assms(2) obtain t1 where s: "setup_cores env ?client ?names t0 = (Ret (), t1)"
    by (cases "setup_cores env ?client ?names t0") simp
  have "\<exists>u. fst (bind_c (index_data_to_cores env ?client (core_configs env ?names) ?csv)
      (\<lambda>u. perform_all env ?client ?names) t1) = Ret u"
    by (rule bind_c_returns) (rule index_data_to_cores_returns, rule perform_all_returns)
  then have "fst (bind_c (index_data_to_cores env ?client (core_configs env ?names) ?csv)
      (\<lambda>u. perform_all env ?client ?names) t1) = Ret ()"
    by simp
  with assms(1) s show ?thesis
    by (simp add: optimized_main_def Let_def bind_c_def [of "SolrClient_check_connection env ?client"]
        bind_c_def [of "setup_cores env ?client ?names"])
qed

subsection \<open>The documents of a CSV file\<close>

lemma keys_fold_fields:
  "fst ` set (fold (\<lambda>(k, v) d. AList.update (Some k) (VStr v) d) kvs d0) =
     Some ` fst ` set kvs \<union> fst ` set d0"
proof (induction kvs arbitrary: d0)
  case Nil
  show ?case by simp
next
  case (Cons kv kvs)
  obtain k v where kv: "kv = (k, v)" by (cases kv)
  have "fst ` set (fold (\<lambda>(k, v) d. AList.update (Some k) (VStr v) d) (kv # kvs) d0) =
      Some ` fst ` set kvs \<union> fst ` set (AList.update (Some k) (VStr v) d0)"
    using Cons.IH [of "AList.update (Some k) (VStr v) d0"] kv by simp
  also have "\<dots> = Some ` fst ` set kvs \<union> ({Some k} \<union> fst ` set d0)"
    by (simp only: dom_update)
  also have "\<dots> = Some ` fst ` set (kv # kvs) \<union> fst ` set d0"
    using kv by auto
  finally show ?case .
qed

lemma keys_fold_missing:
  "fst ` set (fold (\<lambda>k d. AList.update (Some k) VNone d) ks d0) = Some ` set ks \<union> fst ` set d0"
proof (induction ks arbitrary: d0)
  case Nil
  show ?case by simp
next
  case (Cons k ks)
  have "fst ` set (fold (\<lambda>k d. AList.update (Some k) VNone d) (k # ks) d0) =
      Some ` set ks \<union> fst ` set (AList.update (Some k) VNone d0)"
    using Cons.IH [of "AList.update (Some k) VNone d0"] by simp
  also have "\<dots> = Some ` set ks \<union> ({Some k} \<union> fst ` set d0)"
    by (simp only: dom_update)
  also have "\<dots> = Some ` set (k # ks) \<union> fst ` set d0"
    by auto
  finally show ?case .
qed

lemma fst_set_zip: "fst ` set (zip xs ys) = set (take (length ys) xs)"
proof -
  have "fst ` set (zip xs ys) = set (map fst (zip xs ys))" by simp
  also have "\<dots> = set (take (min (length xs) (length ys)) xs)"
    by (simp only: map_fst_zip_take)
  also have "\<dots> = set (take (length ys) xs)" by (simp add: min_def)
  finally show ?thesis .
qed

text \<open>A row with no more fields than the header has exactly the header's names as keys.\<close>

lemma row_dict_keys:
  assumes "length row \<le> length fieldnames"
  shows "fst ` set (row_dict fieldnames row) = Some ` set fieldnames"
proof (cases "length row = length fieldnames")
  case True
  then show ?thesis
    by (simp add: row_dict_def keys_fold_fields fst_set_zip)
next
  case False
  with assms have less: "length row < length fieldnames" by simp
  have "set (take (length row) fieldnames) \<union> set (drop (length row) fieldnames) = set fieldnames"
    by (metis append_take_drop_id set_append)
  then have "Some ` set (drop (length row) fieldnames) \<union> Some ` set (take (length row) fieldnames)
      = Some ` set fieldnames"
    by blast
  with less show ?thesis
    by (simp add: row_dict_def keys_fold_fields keys_fold_missing fst_set_zip)
qed

lemma drop_column_keys: "fst ` set (drop_column x d) = fst ` set d - {Some x}"
  by (force simp: drop_column_def)

lemma documents_of_keys:
  assumes "\<forall>r\<in>set rows. length r \<le> length fieldnames"
    and "d \<in> set (documents_of x (fieldnames # rows))"
  shows "fst ` set d = Some ` (set fieldnames - {x})"
proof -
  from assms(2) obtain r where r: "r \<in> set rows" and d: "d = drop_column x (row_dict fieldnames r)"
    by (auto simp: documents_of_def)
  from r assms(1) have "length r \<le> length fieldnames" by blast
  then have "fst ` set (row_dict fieldnames r) = Some ` set fieldnames"
    by (rule row_dict_keys)
  with d show ?thesis
    by (auto simp: drop_column_keys)
qed

lemma documents_of_length:
  "length (documents_of x (fieldnames # rows)) = length (filter (\<lambda>r. r \<noteq> []) rows)"
  by (simp add: documents_of_def)

lemma documents_of_without_column:
  "d \<in> set (documents_of x rows) \<Longrightarrow> Some x \<notin> fst ` set d"
  by (auto simp: documents_of_def drop_column_def)

text \<open>
  C5, as stated: for every CSV input with header A, B, C and excluded column B the
  documents have exactly the keys A and C. It fails for a data row with more fields
  than the header: \<^verbatim>\<open>DictReader\<close> puts the surplus fields under the key \<^verbatim>\<open>None\<close>,
  which the comprehension keeps.
\<close>

theorem index_data_keeps_surplus_fields:
  "snd (SolrClient_index_data ragged_env \<lparr>base_url = SOLR_URL\<rparr> ''Hash_1234'' ''B'' ''data.csv'' []) =
     [FileOpen ''data.csv'', FileClose ''data.csv'',
      SolrAdd ''http://localhost:8983/solr/Hash_1234/''
        [[(Some ''A'', VStr ''1''), (Some ''C'', VStr ''3''), (None, VRest [''4''])]]]
   \<and> fst ` set [(Some ''A'', VStr ''1''), (Some ''C'', VStr ''3''), (None, VRest [''4''])]
       \<noteq> {Some ''A'', Some ''C''}"
proof -
  have "snd (SolrClient_index_data ragged_env \<lparr>base_url = SOLR_URL\<rparr> ''Hash_1234'' ''B'' ''data.csv'' []) =
     [FileOpen ''data.csv'', FileClose ''data.csv'',
      SolrAdd ''http://localhost:8983/solr/Hash_1234/''
        [[(Some ''A'', VStr ''1''), (Some ''C'', VStr ''3''), (None, VRest [''4''])]]]"
    by code_simp
  moreover have "fst ` set [(Some ''A'', VStr ''1''), (Some ''C'', VStr ''3''), (None, VRest [''4''])]
       \<noteq> {Some ''A'', Some ''C''}"
    by auto
  ultimately show ?thesis by blast
qed

text \<open>
  C5, amended. For every CSV input with header columns A, B, C (A and C other than B)
  whose data rows have at most as many fields as the header, and excluded column B:
  index data (in both scripts) sends documents whose keys are exactly A and C, and the
  number of documents is the number of non-empty data rows (the reader skips empty
  rows; the header row is not counted).
\<close>

theorem documents_without_excluded_column:
  assumes "open_file env p = Ret ([A, B, C] # rows)"
    and "A \<noteq> B" and "C \<noteq> B"
    and "\<forall>r\<in>set rows. length r \<le> 3"
  shows
    "(\<exists>docs. snd (SolrClient_index_data env self c B p t) =
               t @ [FileOpen p, FileClose p, SolrAdd (base_url self @ ''/'' @ c @ ''/'') docs] \<and>
             (\<forall>d\<in>set docs. fst ` set d = {Some A, Some C}) \<and>
             length docs = length (filter (\<lambda>r. r \<noteq> []) rows)) \<and>
     (p = ''employee_data.csv'' \<longrightarrow>
      (\<exists>docs. snd (indexData env c B t) =
               t @ [FileOpen p, SolrAdd (SOLR_URL @ ''/'' @ c @ ''/'') docs, FileClose p] \<and>
             (\<forall>d\<in>set docs. fst ` set d = {Some A, Some C}) \<and>
             length docs = length (filter (\<lambda>r. r \<noteq> []) rows)))"
proof -
  let ?docs = "documents_of B ([A, B, C] # rows)"
  from assms(4) have len: "\<forall>r\<in>set rows. length r \<le> length [A, B, C]"
    by (simp add: numeral_3_eq_3)
  have keys: "\<forall>d\<in>set ?docs. fst ` set d = {Some A, Some C}"
  proof
    fix d assume "d \<in> set ?docs"
    with len have "fst ` set d = Some ` (set [A, B, C] - {B})"
      by (rule documents_of_keys)
    with assms(2,3) show "fst ` set d = {Some A, Some C}" by auto
  qed
  have n: "length ?docs = length (filter (\<lambda>r. r \<noteq> []) rows)"
    by (rule documents_of_length)
  have "snd (SolrClient_index_data env self c B p t) =
      t @ [FileOpen p, FileClose p, SolrAdd (base_url self @ ''/'' @ c @ ''/'') ?docs]"
    using assms(1) by (rule index_data_trace)
  moreover have "snd (indexData env c B t) =
      t @ [FileOpen p, SolrAdd (SOLR_URL @ ''/'' @ c @ ''/'') ?docs, FileClose p]"
    if "p = ''employee_data.csv''"
    using assms(1) that indexData_trace [of env "[A, B, C] # rows" c B t] by simp
  ultimately show ?thesis using keys n by blast
qed

theorem documents_without_excluded_column_witness:
  "snd (SolrClient_index_data sample_env \<lparr>base_url = SOLR_URL\<rparr> ''Hash_1234''
          ''Department'' ''employee_data.csv'' []) =
     [FileOpen ''employee_data.csv'', FileClose ''employee_data.csv'',
      SolrAdd (SOLR_URL @ ''/'' @ ''Hash_1234'' @ ''/'')
        [[(Some ''Employee ID'', VStr ''E02002''), (Some ''Gender'', VStr ''Male'')],
         [(Some ''Employee ID'', VStr ''E02003''), (Some ''Gender'', VStr ''Female'')]]] \<and>
   fst ` set [(Some ''Employee ID'', VStr ''E02002''), (Some ''Gender'', VStr ''Male'')] =
     {Some ''Employee ID'', Some ''Gender''} \<and>
   fst ` set [(Some ''Employee ID'', VStr ''E02003''), (Some ''Gender'', VStr ''Female'')] =
     {Some ''Employee ID'', Some ''Gender''} \<and>
   length [[(Some ''Employee ID'', VStr ''E02002''), (Some ''Gender'', VStr ''Male'')],
           [(Some ''Employee ID'', VStr ''E02003''), (Some ''Gender'', VStr ''Female'')]] =
     length (filter (\<lambda>r. r \<noteq> []) [[''E02002'', ''IT'', ''Male''], [''E02003'', ''Finance'', ''Female'']])"
proof -
  let ?d1 = "[(Some ''Employee ID'', VStr ''E02002''), (Some ''Gender'', VStr ''Male'')]"
  let ?d2 = "[(Some ''Employee ID'', VStr ''E02003''), (Some ''Gender'', VStr ''Female'')]"
  have o: "open_file sample_env ''employee_data.csv'' =
      Ret ([''Employee ID'', ''Department'', ''Gender''] #
           [[''E02002'', ''IT'', ''Male''], [''E02003'', ''Finance'', ''Female'']])"
    by (simp add: sample_env_def sample_csv_def)
  have l: "\<forall>r\<in>set [[''E02002'', ''IT'', ''Male''], [''E02003'', ''Finance'', ''Female'']]. length r \<le> 3"
    by simp
  have a: "''Employee ID'' \<noteq> ''Department''" and g: "''Gender'' \<noteq> ''Department''"
    by simp_all
  have run: "snd (SolrClient_index_data sample_env \<lparr>base_url = SOLR_URL\<rparr> ''Hash_1234''
          ''Department'' ''employee_data.csv'' []) =
     [FileOpen ''employee_data.csv'', FileClose ''employee_data.csv'',
      SolrAdd (SOLR_URL @ ''/'' @ ''Hash_1234'' @ ''/'') [?d1, ?d2]]"
    by code_simp
  from documents_without_excluded_column [OF o a g l,
        where self = "\<lparr>base_url = SOLR_URL\<rparr>" and c = "''Hash_1234''" and t = "[]"]
  obtain docs where
    sent: "snd (SolrClient_index_data sample_env \<lparr>base_url = SOLR_URL\<rparr> ''Hash_1234''
          ''Department'' ''employee_data.csv'' []) =
       [] @ [FileOpen ''employee_data.csv'', FileClose ''employee_data.csv'',
             SolrAdd (base_url \<lparr>base_url = SOLR_URL\<rparr> @ ''/'' @ ''Hash_1234'' @ ''/'') docs]"
    and keys: "\<forall>d\<in>set docs. fst ` set d = {Some ''Employee ID'', Some ''Gender''}"
    and n: "length docs =
       length (filter (\<lambda>r. r \<noteq> []) [[''E02002'', ''IT'', ''Male''], [''E02003'', ''Finance'', ''Female'']])"
    by blast
  from sent run have docs: "docs = [?d1, ?d2]" by simp
  from keys docs have "fst ` set ?d1 = {Some ''Employee ID'', Some ''Gender''}"
    and "fst ` set ?d2 = {Some ''Employee ID'', Some ''Gender''}"
    by simp_all
  with run n docs show ?thesis by simp
qed

subsection \<open>Creating a core twice\<close>

text \<open>
  C4. Create core on a core that does not exist is to return the "created" status, and
  only a second call the "already exists" status. Solr answers a STATUS request that
  names a core with an entry for that core under \<^verbatim>\<open>status\<close>, an empty one when
  there is no such core, so \<^verbatim>\<open>core_name in cores\<close> is true for every name: on a
  server with no core at all, the first create core (in both scripts) returns the
  "already exists" status and sends no CREATE request.
\<close>

theorem create_core_skips_absent_core_on_solr:
  "http_get solr_like_env [] (status_request SOLR_URL ''Hash_YourName'') =
     Ret \<lparr>resp_status_code = 200, resp_text = ''status'',
          resp_json = Ret (JDict [(''responseHeader'', JDict [(''status'', JInt 0)]),
                                  (''initFailures'', JDict []),
                                  (''status'', JDict [(''Hash_YourName'', JDict [])])]),
          resp_error_msg = []\<rparr> \<and>
   createCore solr_like_env ''Hash_YourName'' [] =
     (Ret ''Core Hash_YourName already exists.'',
      [HttpGet \<lparr>req_url = ''http://localhost:8983/solr/admin/cores?action=STATUS&core=Hash_YourName&wt=json'',
                req_params = []\<rparr>]) \<and>
   SolrClient_create_core solr_like_env \<lparr>base_url = SOLR_URL\<rparr> ''Hash_YourName'' [] =
     (Ret ''Core Hash_YourName already exists.'',
      [HttpGet \<lparr>req_url = ''http://localhost:8983/solr/admin/cores?action=STATUS&core=Hash_YourName&wt=json'',
                req_params = []\<rparr>])"
  by code_simp

text \<open>
  What follows is about a server of another kind, one that answers as the scripts
  expect (\<open>core_server\<close>).
\<close>

lemma cores_created_append [simp]:
  "cores_created (h @ h') = cores_created h @ cores_created h'"
  by (simp add: cores_created_def List.map_filter_def)

lemma cores_created_status [simp]: "cores_created [HttpGet (status_request b c)] = []"
  by (simp add: cores_created_def List.map_filter_def status_request_def)

lemma cores_created_create [simp]: "cores_created [HttpGet (create_request b c)] = [c]"
  by (simp add: cores_created_def List.map_filter_def create_request_def)

text \<open>Against such a server, core exists tells whether the core has been created.\<close>

lemma check_core_exists_on_core_server:
  assumes "core_server (base_url self) env"
  shows "SolrClient_check_core_exists env self c t =
           (Ret (c \<in> set (cores_created (requests_of t))),
            t @ [HttpGet (status_request (base_url self) c)])"
proof -
  from assms obtain r j cores where
    g: "http_get env (requests_of t) (status_request (base_url self) c) = Ret r"
    and s: "raise_for_status r = Ret ()"
    and js: "resp_json r = Ret j"
    and st: "py_getitem j ''status'' = Ret (JDict cores)"
    and ex: "(c \<in> set (map fst cores)) = (c \<in> set (cores_created (requests_of t)))"
    unfolding core_server_def by blast
  from g s js st ex show ?thesis
    by (simp add: SolrClient_check_core_exists_def comp_defs status_request_def)
qed

lemma create_core_new_on_core_server:
  assumes "core_server (base_url self) env"
    and "c \<notin> set (cores_created (requests_of t))"
  shows "SolrClient_create_core env self c t =
           (Ret (''Core '' @ c @ '' created successfully.''),
            t @ [HttpGet (status_request (base_url self) c),
                 HttpGet (create_request (base_url self) c)])"
proof -
  let ?t1 = "t @ [HttpGet (status_request (base_url self) c)]"
  from assms(2) have "c \<notin> set (cores_created (requests_of ?t1))" by simp
  with assms(1) obtain r j where
    g: "http_get env (requests_of ?t1) (create_request (base_url self) c) = Ret r"
    and s: "raise_for_status r = Ret ()"
    and js: "resp_json r = Ret j"
    and ok: "py_contains ''success'' j = Ret True"
    unfolding core_server_def by blast
  have chk: "SolrClient_check_core_exists env self c t = (Ret False, ?t1)"
    using check_core_exists_on_core_server [OF assms(1), of c t] assms(2) by simp
  from chk g s js ok show ?thesis
    by (simp add: SolrClient_create_core_def comp_defs create_request_def)
qed

lemma create_core_again_on_core_server:
  assumes "core_server (base_url self) env"
    and "c \<in> set (cores_created (requests_of t))"
  shows "SolrClient_create_core env self c t =
           (Ret (''Core '' @ c @ '' already exists.''),
            t @ [HttpGet (status_request (base_url self) c)])"
  using check_core_exists_on_core_server [OF assms(1), of c t] assms(2)
  by (simp add: SolrClient_create_core_def bind_c_def ret_def)

lemma sample_env_core_server: "core_server b sample_env"
  unfolding core_server_def
proof (intro conjI allI impI)
  fix h c
  show "\<exists>r j cores.
        http_get sample_env h (status_request b c) = Ret r \<and> raise_for_status r = Ret () \<and>
        resp_json r = Ret j \<and> py_getitem j ''status'' = Ret (JDict cores) \<and>
        (c \<in> set (map fst cores)) = (c \<in> set (cores_created h))"
    by (simp add: sample_env_def sample_server_def status_request_def raise_for_status_def image_image)
next
  fix h c
  show "\<exists>r j. http_get sample_env h (create_request b c) = Ret r \<and> raise_for_status r = Ret () \<and>
           resp_json r = Ret j \<and> py_contains ''success'' j = Ret True"
    by (simp add: sample_env_def sample_server_def create_request_def raise_for_status_def)
qed

text \<open>
  Against such a server, for every core name \<open>c\<close> not yet created: create core sends
  the status request and the CREATE request and returns the "created" status; from then
  on, at any later point of the run, core exists returns true and create core returns
  the "already exists" status after sending only the status request, which is no CREATE
  request. This holds for the baseline functions and for the methods of a refactored
  client of any base URL.
\<close>

lemma create_core_on_core_server:
  assumes "core_server (base_url self) env"
    and "c \<notin> set (cores_created (requests_of t))"
  shows
    "SolrClient_create_core env self c t =
       (Ret (''Core '' @ c @ '' created successfully.''),
        t @ [HttpGet (status_request (base_url self) c), HttpGet (create_request (base_url self) c)]) \<and>
     (\<forall>t'. c \<in> set (cores_created (requests_of t')) \<longrightarrow>
        SolrClient_check_core_exists env self c t' =
          (Ret True, t' @ [HttpGet (status_request (base_url self) c)]) \<and>
        SolrClient_create_core env self c t' =
          (Ret (''Core '' @ c @ '' already exists.''),
           t' @ [HttpGet (status_request (base_url self) c)])) \<and>
     c \<in> set (cores_created (requests_of
            (t @ [HttpGet (status_request (base_url self) c),
                  HttpGet (create_request (base_url self) c)]))) \<and>
     create_name (HttpGet (status_request (base_url self) c)) = None \<and>
     (base_url self = SOLR_URL \<longrightarrow>
        createCore env c t =
          (Ret (''Core '' @ c @ '' created successfully.''),
           t @ [HttpGet (status_request SOLR_URL c), HttpGet (create_request SOLR_URL c)]) \<and>
        (\<forall>t'. c \<in> set (cores_created (requests_of t')) \<longrightarrow>
           check_core_exists env c t' = (Ret True, t' @ [HttpGet (status_request SOLR_URL c)]) \<and>
           createCore env c t' =
             (Ret (''Core '' @ c @ '' already exists.''),
              t' @ [HttpGet (status_request SOLR_URL c)])))"
proof -
  have new: "SolrClient_create_core env self c t =
       (Ret (''Core '' @ c @ '' created successfully.''),
        t @ [HttpGet (status_request (base_url self) c), HttpGet (create_request (base_url self) c)])"
    using assms by (rule create_core_new_on_core_server)
  have again: "\<forall>t'. c \<in> set (cores_created (requests_of t')) \<longrightarrow>
        SolrClient_check_core_exists env self c t' =
          (Ret True, t' @ [HttpGet (status_request (base_url self) c)]) \<and>
        SolrClient_create_core env self c t' =
          (Ret (''Core '' @ c @ '' already exists.''),
           t' @ [HttpGet (status_request (base_url self) c)])"
    using check_core_exists_on_core_server [OF assms(1), of c]
      create_core_again_on_core_server [OF assms(1), of c]
    by simp
  have len: "c \<in> set (cores_created (requests_of
            (t @ [HttpGet (status_request (base_url self) c),
                  HttpGet (create_request (base_url self) c)])))"
    by (simp add: cores_created_def List.map_filter_def status_request_def create_request_def)
  have st: "create_name (HttpGet (status_request (base_url self) c)) = None"
    by (simp add: status_request_def)
  have base: "createCore env c t =
          (Ret (''Core '' @ c @ '' created successfully.''),
           t @ [HttpGet (status_request SOLR_URL c), HttpGet (create_request SOLR_URL c)]) \<and>
        (\<forall>t'. c \<in> set (cores_created (requests_of t')) \<longrightarrow>
           check_core_exists env c t' = (Ret True, t' @ [HttpGet (status_request SOLR_URL c)]) \<and>
           createCore env c t' =
             (Ret (''Core '' @ c @ '' already exists.''),
              t' @ [HttpGet (status_request SOLR_URL c)]))"
    if b: "base_url self = SOLR_URL"
    using new again b create_core_same [OF b, of env c] check_core_exists_same [OF b, of env c]
    by simp
  from new again len st base show ?thesis by blast
qed

lemma create_core_on_sample_server:
  "createCore sample_env ''Hash_1234'' [] =
     (Ret ''Core Hash_1234 created successfully.'',
      [HttpGet (status_request SOLR_URL ''Hash_1234''), HttpGet (create_request SOLR_URL ''Hash_1234'')]) \<and>
   check_core_exists sample_env ''Hash_1234''
     [HttpGet (status_request SOLR_URL ''Hash_1234''), HttpGet (create_request SOLR_URL ''Hash_1234'')] =
     (Ret True,
      [HttpGet (status_request SOLR_URL ''Hash_1234''), HttpGet (create_request SOLR_URL ''Hash_1234''),
       HttpGet (status_request SOLR_URL ''Hash_1234'')]) \<and>
   createCore sample_env ''Hash_1234''
     [HttpGet (status_request SOLR_URL ''Hash_1234''), HttpGet (create_request SOLR_URL ''Hash_1234'')] =
     (Ret ''Core Hash_1234 already exists.'',
      [HttpGet (status_request SOLR_URL ''Hash_1234''), HttpGet (create_request SOLR_URL ''Hash_1234''),
       HttpGet (status_request SOLR_URL ''Hash_1234'')])"
proof -
  have srv: "core_server (base_url \<lparr>base_url = SOLR_URL\<rparr>) sample_env"
    by (rule sample_env_core_server)
  have fresh: "''Hash_1234'' \<notin> set (cores_created (requests_of []))"
    by (simp add: cores_created_def List.map_filter_def)
  have b: "base_url \<lparr>base_url = SOLR_URL\<rparr> = SOLR_URL" by simp
  have there: "''Hash_1234'' \<in> set (cores_created (requests_of
      [HttpGet (status_request SOLR_URL ''Hash_1234''), HttpGet (create_request SOLR_URL ''Hash_1234'')]))"
    by (simp add: cores_created_def List.map_filter_def status_request_def create_request_def)
  from create_core_on_core_server [OF srv fresh] b there show ?thesis
    by simp
qed

subsection \<open>Which column each core loses\<close>

lemma added_append [simp]: "added (t @ u) = added t @ added u"
  by (induction t rule: added.induct) simp_all

text \<open>Only the index operations send add requests.\<close>

lemma check_solr_connection_added:
  "check_solr_connection env t = (r, t') \<Longrightarrow> added t' = added t"
  by (auto simp add: check_solr_connection_def comp_defs split: res.splits if_splits)

lemma check_core_exists_added:
  "check_core_exists env c t = (r, t') \<Longrightarrow> added t' = added t"
  by (auto simp add: check_core_exists_def comp_defs split: res.splits if_splits)

lemma createCore_added:
  "createCore env c t = (r, t') \<Longrightarrow> added t' = added t"
  by (auto simp add: createCore_def comp_defs split: res.splits if_splits prod.splits
      dest: check_core_exists_added)

lemma getEmpCount_added:
  "getEmpCount env c t = (r, t') \<Longrightarrow> added t' = added t"
  by (auto simp add: getEmpCount_def comp_defs split: res.splits)

lemma delEmpById_added:
  "delEmpById env c i t = (r, t') \<Longrightarrow> added t' = added t"
  by (auto simp add: delEmpById_def comp_defs split: res.splits)

lemma searchByColumn_added:
  "searchByColumn env c f v t = (r, t') \<Longrightarrow> added t' = added t"
  by (auto simp add: searchByColumn_def comp_defs split: res.splits)

lemma getDepFacet_added:
  "getDepFacet env c t = (r, t') \<Longrightarrow> added t' = added t"
  by (auto simp add: getDepFacet_def comp_defs split: res.splits)

lemma indexData_added:
  "open_file env ''employee_data.csv'' = Ret rows \<Longrightarrow> indexData env c x t = (r, t') \<Longrightarrow>
   added t' = added t @ [(SOLR_URL @ ''/'' @ c @ ''/'', documents_of x rows)]"
  using indexData_trace [of env rows c x t] by simp

lemma bind_c_RetE:
  assumes "bind_c m f t = (Ret y, t')"
  obtains x t1 where "m t = (Ret x, t1)" and "f x t1 = (Ret y, t')"
  using assms by (auto simp: bind_c_def split: prod.splits res.splits)

lemma main_added:
  assumes "fst (check_solr_connection env t) = Ret True"
    and "fst (main env t) = Ret ()"
    and "open_file env ''employee_data.csv'' = Ret rows"
  shows "added (snd (main env t)) =
     added t @ [(SOLR_URL @ ''/'' @ v_nameCore @ ''/'', documents_of ''Department'' rows),
                (SOLR_URL @ ''/'' @ v_phoneCore @ ''/'', documents_of ''Gender'' rows)]"
proof -
  obtain t0 where c: "check_solr_connection env t = (Ret True, t0)"
    using assms(1) by (cases "check_solr_connection env t") simp
  obtain t' where m: "main env t = (Ret (), t')"
    using assms(2) by (cases "main env t") simp
  note idx = indexData_added [OF assms(3)]
  from c have a0: "added t0 = added t"
    by (rule check_solr_connection_added)
  from m c have "added t' = added t0 @
      [(SOLR_URL @ ''/'' @ v_nameCore @ ''/'', documents_of ''Department'' rows),
       (SOLR_URL @ ''/'' @ v_phoneCore @ ''/'', documents_of ''Gender'' rows)]"
    apply (simp add: main_def bind_c_def [of "check_solr_connection env"])
    apply (elim bind_c_RetE)
    apply (drule createCore_added)+
    apply (drule getEmpCount_added)+
    apply (drule idx)+
    apply (drule delEmpById_added)
    apply (drule searchByColumn_added)+
    apply (drule getDepFacet_added)+
    apply (simp add: ret_def)
    done
  with a0 m show ?thesis by simp
qed

lemma check_connection_added:
  "SolrClient_check_connection env self t = (r, t') \<Longrightarrow> added t' = added t"
  by (auto simp add: SolrClient_check_connection_def comp_defs split: res.splits if_splits)

lemma client_check_core_exists_added:
  "SolrClient_check_core_exists env self c t = (r, t') \<Longrightarrow> added t' = added t"
  by (auto simp add: SolrClient_check_core_exists_def comp_defs split: res.splits if_splits)

lemma create_core_added:
  "SolrClient_create_core env self c t = (r, t') \<Longrightarrow> added t' = added t"
  by (auto simp add: SolrClient_create_core_def comp_defs split: res.splits if_splits prod.splits
      dest: client_check_core_exists_added)

lemma get_employee_count_added:
  "SolrClient_get_employee_count env self c t = (r, t') \<Longrightarrow> added t' = added t"
  by (auto simp add: SolrClient_get_employee_count_def comp_defs split: res.splits)

lemma delete_employee_by_id_added:
  "SolrClient_delete_employee_by_id env self c i t = (r, t') \<Longrightarrow> added t' = added t"
  by (auto simp add: SolrClient_delete_employee_by_id_def comp_defs split: res.splits)

lemma search_by_column_added:
  "SolrClient_search_by_column env self c f v t = (r, t') \<Longrightarrow> added t' = added t"
  by (auto simp add: SolrClient_search_by_column_def comp_defs split: res.splits)

lemma get_department_facet_added:
  "SolrClient_get_department_facet env self c t = (r, t') \<Longrightarrow> added t' = added t"
  by (auto simp add: SolrClient_get_department_facet_def comp_defs split: res.splits)

lemma index_data_added:
  "open_file env p = Ret rows \<Longrightarrow> SolrClient_index_data env self c x p t = (r, t') \<Longrightarrow>
   added t' = added t @ [(base_url self @ ''/'' @ c @ ''/'', documents_of x rows)]"
  using index_data_trace [of env p rows self c x t] by simp

lemma bind_c_cases:
  assumes "bind_c m f t = (r, t')"
  obtains (raised) e where "m t = (Raise e, t')" and "r = Raise e"
    | (returned) x t1 where "m t = (Ret x, t1)" and "f x t1 = (r, t')"
  using assms by (auto simp: bind_c_def split: prod.splits res.splits)

lemma setup_cores_added:
  "setup_cores env client core_names t = (r, t') \<Longrightarrow> added t' = added t"
proof (induction core_names arbitrary: t)
  case Nil
  then show ?case by (simp add: ret_def)
next
  case (Cons c cs)
  from Cons.prems have "bind_c (SolrClient_create_core env client c)
      (\<lambda>result. setup_cores env client cs) t = (r, t')"
    by simp
  then show ?case
  proof (cases rule: bind_c_cases)
    case (raised e)
    then show ?thesis by (simp add: create_core_added)
  next
    case (returned x t1)
    then show ?thesis using Cons.IH [of t1] by (simp add: create_core_added)
  qed
qed

lemma perform_operations_added:
  assumes "perform_operations env client c t = (r, t')"
  shows "added t' = added t"
proof -
  from assms have
    "bind_c (SolrClient_delete_employee_by_id env client c (getenv env ''EMPLOYEE_ID_TO_DELETE'' ''E02003''))
       (\<lambda>del_result. bind_c (SolrClient_get_employee_count env client c)
       (\<lambda>emp_count. bind_c (SolrClient_search_by_column env client c ''Department''
                               (getenv env ''SEARCH_DEPARTMENT'' ''IT''))
       (\<lambda>search_result. bind_c (SolrClient_get_department_facet env client c)
       (\<lambda>facet_result. ret ())))) t = (r, t')"
    by (simp add: perform_operations_def)
  then show ?thesis
    by (elim bind_c_cases)
      (auto simp: ret_def dest!: delete_employee_by_id_added get_employee_count_added
        search_by_column_added get_department_facet_added)
qed

lemma perform_all_added:
  "perform_all env client core_names t = (r, t') \<Longrightarrow> added t' = added t"
proof (induction core_names arbitrary: t)
  case Nil
  then show ?case by (simp add: ret_def)
next
  case (Cons c cs)
  from Cons.prems have "bind_c (perform_operations env client c)
      (\<lambda>u. perform_all env client cs) t = (r, t')"
    by simp
  then show ?case
  proof (cases rule: bind_c_cases)
    case (raised e)
    then show ?thesis by (simp add: perform_operations_added)
  next
    case (returned x t1)
    then show ?thesis using Cons.IH [of t1] by (simp add: perform_operations_added)
  qed
qed

text \<open>Every configured core gets the documents of the file without its excluded column.\<close>

lemma index_data_to_cores_added:
  assumes "open_file env p = Ret rows"
  shows "index_data_to_cores env client configs p t = (Ret u, t') \<Longrightarrow>
     added t' = added t @
       map (\<lambda>(c, x). (base_url client @ ''/'' @ c @ ''/'', documents_of x rows)) configs"
proof (induction configs arbitrary: t)
  case Nil
  then show ?case by (simp add: ret_def)
next
  case (Cons cx configs)
  obtain c x where cx: "cx = (c, x)" by (cases cx)
  from Cons.prems cx have "bind_c (SolrClient_index_data env client c x p)
      (\<lambda>result. index_data_to_cores env client configs p) t = (Ret u, t')"
    by simp
  then obtain s t1 where
    one: "SolrClient_index_data env client c x p t = (Ret s, t1)"
    and rest: "index_data_to_cores env client configs p t1 = (Ret u, t')"
    by (rule bind_c_RetE)
  from one have "added t1 = added t @ [(base_url client @ ''/'' @ c @ ''/'', documents_of x rows)]"
    by (rule index_data_added [OF assms])
  with Cons.IH [OF rest] cx show ?case by simp
qed

lemma optimized_main_added:
  assumes "fst (SolrClient_check_connection env
                  \<lparr>base_url = getenv env ''SOLR_URL'' ''http://localhost:8983/solr''\<rparr> t) = Ret True"
    and "fst (optimized_main env t) = Ret ()"
    and "open_file env (getenv env ''CSV_FILE'' ''employee_data.csv'') = Ret rows"
  shows "added (snd (optimized_main env t)) =
     added t @
       map (\<lambda>(c, x). (getenv env ''SOLR_URL'' ''http://localhost:8983/solr'' @ ''/'' @ c @ ''/'',
                      documents_of x rows))
         (core_configs env (split_on (CHR '','') (getenv env ''CORE_NAMES'' ''Hash_YourName,Hash_1234'')))"
proof -
  let ?client = "\<lparr>base_url = getenv env ''SOLR_URL'' ''http://localhost:8983/solr''\<rparr>"
  let ?names = "split_on (CHR '','') (getenv env ''CORE_NAMES'' ''Hash_YourName,Hash_1234'')"
  let ?csv = "getenv env ''CSV_FILE'' ''employee_data.csv''"
  obtain t0 where c: "SolrClient_check_connection env ?client t = (Ret True, t0)"
    using assms(1) by (cases "SolrClient_check_connection env ?client t") simp
  obtain t' where m: "optimized_main env t = (Ret (), t')"
    using assms(2) by (cases "optimized_main env t") simp
  from c have a0: "added t0 = added t"
    by (rule check_connection_added)
  from m c have "bind_c (setup_cores env ?client ?names)
      (\<lambda>u. bind_c (index_data_to_cores env ?client (core_configs env ?names) ?csv)
      (\<lambda>u. perform_all env ?client ?names)) t0 = (Ret (), t')"
    by (simp add: optimized_main_def Let_def bind_c_def [of "SolrClient_check_connection env ?client"])
  then obtain t1 t2 where
    s: "setup_cores env ?client ?names t0 = (Ret (), t1)"
    and i: "index_data_to_cores env ?client (core_configs env ?names) ?csv t1 = (Ret (), t2)"
    and p: "perform_all env ?client ?names t2 = (Ret (), t')"
    by (elim bind_c_RetE) auto
  from s have a1: "added t1 = added t0" by (rule setup_cores_added)
  from p have a3: "added t' = added t2" by (rule perform_all_added)
  from index_data_to_cores_added [OF assms(3) i] a0 a1 a3 m show ?thesis
    by simp
qed

text \<open>Without a variable for a core, its excluded column is the default.\<close>

lemma map_of_fold_update:
  "map_of (fold (\<lambda>k d. AList.update k (g k) d) ks d0) c =
     (if c \<in> set ks then Some (g c) else map_of d0 c)"
  by (induction ks arbitrary: d0) (auto simp: update_conv')

lemma core_configs_default:
  assumes "\<forall>c\<in>set core_names. environ env (py_upper env c @ ''_EXCLUDE_COLUMN'') = None"
    and "c \<in> set core_names"
  shows "map_of (core_configs env core_names) c = Some ''Department''"
  using assms by (simp add: core_configs_def map_of_fold_update getenv_def)

lemma py_upper_sample_cores:
  "py_upper env ''Hash_YourName'' = ''HASH_YOURNAME''"
  "py_upper env ''Hash_1234'' = ''HASH_1234''"
  by (simp_all add: py_upper_def is_ascii_def upper_char_def)

text \<open>The documents of a file are the rows of the reader, each without the pairs of the column.\<close>

lemma documents_of_filter:
  "documents_of x rows = map (filter (\<lambda>(k, v). k \<noteq> Some x)) (DictReader rows)"
  by (simp add: documents_of_def drop_column_def [abs_def])

text \<open>
  C9. In the refactored script a core without its own variable in the environment loses
  the default column \<^verbatim>\<open>Department\<close>. So under the default configuration (none of
  \<^verbatim>\<open>SOLR_URL\<close>, \<^verbatim>\<open>CORE_NAMES\<close>, \<^verbatim>\<open>CSV_FILE\<close> and the two cores' own variables set;
  anything else may be set) a run of the refactored \<^verbatim>\<open>main\<close> that passes the connection
  check and returns sends to each of the two sample cores the rows of the CSV file, every
  row without its \<^verbatim>\<open>Department\<close> entry and with all its other entries. Such a run of
  the baseline \<^verbatim>\<open>main\<close> sends the rows without the \<^verbatim>\<open>Department\<close> entry to the first
  core and the rows without the \<^verbatim>\<open>Gender\<close> entry to the second.
\<close>

theorem default_excluded_column:
  "((\<forall>c\<in>set core_names. environ env (py_upper env c @ ''_EXCLUDE_COLUMN'') = None) \<longrightarrow>
      (\<forall>c\<in>set core_names. map_of (core_configs env core_names) c = Some ''Department'')) \<and>
   (environ env ''SOLR_URL'' = None \<and> environ env ''CORE_NAMES'' = None \<and>
    environ env ''CSV_FILE'' = None \<and>
    environ env ''HASH_YOURNAME_EXCLUDE_COLUMN'' = None \<and>
    environ env ''HASH_1234_EXCLUDE_COLUMN'' = None \<and>
    fst (SolrClient_check_connection env \<lparr>base_url = ''http://localhost:8983/solr''\<rparr> t) = Ret True \<and>
    fst (optimized_main env t) = Ret () \<and>
    open_file env ''employee_data.csv'' = Ret rows \<longrightarrow>
      added (snd (optimized_main env t)) =
        added t @
        [(''http://localhost:8983/solr/Hash_YourName/'',
          map (filter (\<lambda>(k, v). k \<noteq> Some ''Department'')) (DictReader rows)),
         (''http://localhost:8983/solr/Hash_1234/'',
          map (filter (\<lambda>(k, v). k \<noteq> Some ''Department'')) (DictReader rows))]) \<and>
   (fst (check_solr_connection env t) = Ret True \<and>
    fst (main env t) = Ret () \<and>
    open_file env ''employee_data.csv'' = Ret rows \<longrightarrow>
      added (snd (main env t)) =
        added t @
        [(''http://localhost:8983/solr/Hash_YourName/'',
          map (filter (\<lambda>(k, v). k \<noteq> Some ''Department'')) (DictReader rows)),
         (''http://localhost:8983/solr/Hash_1234/'',
          map (filter (\<lambda>(k, v). k \<noteq> Some ''Gender'')) (DictReader rows))])"
proof -
  have configs: "\<forall>c\<in>set core_names. map_of (core_configs env core_names) c = Some ''Department''"
    if "\<forall>c\<in>set core_names. environ env (py_upper env c @ ''_EXCLUDE_COLUMN'') = None"
    using that core_configs_default [of core_names env] by blast
  have refactored: "added (snd (optimized_main env t)) =
        added t @
        [(''http://localhost:8983/solr/Hash_YourName/'',
          map (filter (\<lambda>(k, v). k \<noteq> Some ''Department'')) (DictReader rows)),
         (''http://localhost:8983/solr/Hash_1234/'',
          map (filter (\<lambda>(k, v). k \<noteq> Some ''Department'')) (DictReader rows))]"
    if url: "environ env ''SOLR_URL'' = None" and names: "environ env ''CORE_NAMES'' = None"
      and csv: "environ env ''CSV_FILE'' = None"
      and v1: "environ env ''HASH_YOURNAME_EXCLUDE_COLUMN'' = None"
      and v2: "environ env ''HASH_1234_EXCLUDE_COLUMN'' = None"
      and conn: "fst (SolrClient_check_connection env \<lparr>base_url = ''http://localhost:8983/solr''\<rparr> t) = Ret True"
      and run: "fst (optimized_main env t) = Ret ()"
      and opened: "open_file env ''employee_data.csv'' = Ret rows"
  proof -
    have g: "getenv env ''SOLR_URL'' d = d" "getenv env ''CORE_NAMES'' d = d"
      "getenv env ''CSV_FILE'' d = d" for d
      using url names csv by (simp_all add: getenv_def)
    have "core_configs env (split_on (CHR '','') ''Hash_YourName,Hash_1234'') =
        [(''Hash_YourName'', ''Department''), (''Hash_1234'', ''Department'')]"
      using v1 v2 by (simp add: core_configs_def getenv_def py_upper_sample_cores)
    with optimized_main_added [of env t rows] conn run opened show ?thesis
      by (simp add: g documents_of_filter)
  qed
  have baseline: "added (snd (main env t)) =
        added t @
        [(''http://localhost:8983/solr/Hash_YourName/'',
          map (filter (\<lambda>(k, v). k \<noteq> Some ''Department'')) (DictReader rows)),
         (''http://localhost:8983/solr/Hash_1234/'',
          map (filter (\<lambda>(k, v). k \<noteq> Some ''Gender'')) (DictReader rows))]"
    if "fst (check_solr_connection env t) = Ret True"
      and "fst (main env t) = Ret ()"
      and "open_file env ''employee_data.csv'' = Ret rows"
    using main_added [OF that]
    by (simp add: SOLR_URL_def v_nameCore_def v_phoneCore_def documents_of_filter)
  from configs refactored baseline show ?thesis by blast
qed

theorem default_excluded_column_witness:
  "map_of (core_configs sample_env [''Hash_YourName'', ''Hash_1234'']) ''Hash_1234'' = Some ''Department'' \<and>
   added (snd (optimized_main sample_env [])) =
     [(''http://localhost:8983/solr/Hash_YourName/'',
       [[(Some ''Employee ID'', VStr ''E02002''), (Some ''Gender'', VStr ''Male'')],
        [(Some ''Employee ID'', VStr ''E02003''), (Some ''Gender'', VStr ''Female'')]]),
      (''http://localhost:8983/solr/Hash_1234/'',
       [[(Some ''Employee ID'', VStr ''E02002''), (Some ''Gender'', VStr ''Male'')],
        [(Some ''Employee ID'', VStr ''E02003''), (Some ''Gender'', VStr ''Female'')]])] \<and>
   added (snd (main sample_env [])) =
     [(''http://localhost:8983/solr/Hash_YourName/'',
       [[(Some ''Employee ID'', VStr ''E02002''), (Some ''Gender'', VStr ''Male'')],
        [(Some ''Employee ID'', VStr ''E02003''), (Some ''Gender'', VStr ''Female'')]]),
      (''http://localhost:8983/solr/Hash_1234/'',
       [[(Some ''Employee ID'', VStr ''E02002''), (Some ''Department'', VStr ''IT'')],
        [(Some ''Employee ID'', VStr ''E02003''), (Some ''Department'', VStr ''Finance'')]])]"
proof -
  have unset: "environ sample_env ''SOLR_URL'' = None" "environ sample_env ''CORE_NAMES'' = None"
    "environ sample_env ''CSV_FILE'' = None"
    "environ sample_env ''HASH_YOURNAME_EXCLUDE_COLUMN'' = None"
    "environ sample_env ''HASH_1234_EXCLUDE_COLUMN'' = None"
    by (simp_all add: sample_env_def)
  have vars: "\<forall>c\<in>set [''Hash_YourName'', ''Hash_1234''].
      environ sample_env (py_upper sample_env c @ ''_EXCLUDE_COLUMN'') = None"
    using unset by (simp add: py_upper_sample_cores)
  have conn': "fst (SolrClient_check_connection sample_env \<lparr>base_url = ''http://localhost:8983/solr''\<rparr> [])
      = Ret True"
    by code_simp
  have run': "fst (optimized_main sample_env []) = Ret ()"
    by code_simp
  have conn: "fst (check_solr_connection sample_env []) = Ret True"
    by code_simp
  have run: "fst (main sample_env []) = Ret ()"
    by code_simp
  have csv: "open_file sample_env ''employee_data.csv'' = Ret sample_csv"
    by (simp add: sample_env_def)
  have d1: "map (filter (\<lambda>(k, v). k \<noteq> Some ''Department'')) (DictReader sample_csv) =
      [[(Some ''Employee ID'', VStr ''E02002''), (Some ''Gender'', VStr ''Male'')],
       [(Some ''Employee ID'', VStr ''E02003''), (Some ''Gender'', VStr ''Female'')]]"
    by (simp add: sample_csv_def row_dict_def)
  have d2: "map (filter (\<lambda>(k, v). k \<noteq> Some ''Gender'')) (DictReader sample_csv) =
      [[(Some ''Employee ID'', VStr ''E02002''), (Some ''Department'', VStr ''IT'')],
       [(Some ''Employee ID'', VStr ''E02003''), (Some ''Department'', VStr ''Finance'')]]"
    by (simp add: sample_csv_def row_dict_def)
  note inst = default_excluded_column [where env = sample_env and t = "[]" and rows = sample_csv
      and core_names = "[''Hash_YourName'', ''Hash_1234'']"]
  from inst vars have "map_of (core_configs sample_env [''Hash_YourName'', ''Hash_1234'']) ''Hash_1234''
      = Some ''Department''"
    by simp
  moreover from inst unset conn' run' csv have "added (snd (optimized_main sample_env [])) =
     [(''http://localhost:8983/solr/Hash_YourName/'',
       map (filter (\<lambda>(k, v). k \<noteq> Some ''Department'')) (DictReader sample_csv)),
      (''http://localhost:8983/solr/Hash_1234/'',
       map (filter (\<lambda>(k, v). k \<noteq> Some ''Department'')) (DictReader sample_csv))]"
    by simp
  moreover from inst conn run csv have "added (snd (main sample_env [])) =
     [(''http://localhost:8983/solr/Hash_YourName/'',
       map (filter (\<lambda>(k, v). k \<noteq> Some ''Department'')) (DictReader sample_csv)),
      (''http://localhost:8983/solr/Hash_1234/'',
       map (filter (\<lambda>(k, v). k \<noteq> Some ''Gender'')) (DictReader sample_csv))]"
    by simp
  ultimately show ?thesis by (simp only: d1 d2)
qed

end
